theory Spec2Isabelle
  imports Main "HOL-Library.Word" "HOL-Library.Signed_Division"
begin

unbundle bit_operations_syntax

chapter \<open>Xidi: the virtual controller and the DirectInput mapper\<close>

text \<open>
  A shallow embedding of \<^verbatim>\<open>Source/VirtualController.cpp\<close> and of \<^verbatim>\<open>Mapper.cpp\<close> of Xidi.
  The 32-bit integers of the source (\<^verbatim>\<open>int32_t\<close>, \<^verbatim>\<open>LONG\<close>, \<^verbatim>\<open>DWORD\<close>, \<^verbatim>\<open>uint32_t\<close>)
  are \<open>32 word\<close>: addition, subtraction and multiplication wrap around, a signed reading is
  \<open>sint\<close>, an unsigned one \<open>unat\<close>.
\<close>

section \<open>Machine integers\<close>

text \<open>
  The operator \<^verbatim>\<open>/\<close> of C++ on \<^verbatim>\<open>int32_t\<close>: the quotient is truncated toward zero.
  Division by zero and \<^verbatim>\<open>INT_MIN / -1\<close> are undefined in C++; here they give 0 and
  \<^verbatim>\<open>INT_MIN\<close> (the wrapped value).
\<close>

definition sdiv32 :: "32 word \<Rightarrow> 32 word \<Rightarrow> 32 word" where
  "sdiv32 a b = word_of_int (sint a sdiv sint b)"

section \<open>VirtualController.cpp\<close>

subsection \<open>Data\<close>

text \<open>The error codes of the platform that the source names.\<close>

definition ERROR_SUCCESS :: "32 word" where
  "ERROR_SUCCESS = 0"

definition ERROR_DEVICE_NOT_CONNECTED :: "32 word" where
  "ERROR_DEVICE_NOT_CONNECTED = 1167"

definition kAnalogValueNeutral :: "32 word" where
  "kAnalogValueNeutral = 0"

text \<open>\<^verbatim>\<open>Controller::EAxis\<close>: the index type of the axis arrays.\<close>

datatype EAxis = AxisX | AxisY | AxisZ | AxisRotX | AxisRotY | AxisRotZ

text \<open>
  \<^verbatim>\<open>VirtualController::SAxisProperties\<close>, with the fields that \<^verbatim>\<open>TransformAxisValue\<close>
  reads. (The fields are prefixed where the mapper's record of the same name has a field
  of that name.)
\<close>

record VC_SAxisProperties =
  deadzoneRawCutoffPositive :: "32 word"
  deadzoneRawCutoffNegative :: "32 word"
  saturationRawCutoffPositive :: "32 word"
  saturationRawCutoffNegative :: "32 word"
  vc_rangeMin :: "32 word"
  vc_rangeNeutral :: "32 word"
  vc_rangeMax :: "32 word"

text \<open>
  Modelled from the spec: \<^verbatim>\<open>Controller::SState\<close> is declared in ControllerTypes.h, which is
  not among the sources; the spec gives it an \<^verbatim>\<open>i32\<close> per axis, a \<^verbatim>\<open>bool\<close> per button and an
  \<^verbatim>\<open>i32\<close> per POV. The arrays are functions of their index.
\<close>

record SState =
  axis :: "EAxis \<Rightarrow> 32 word"
  button :: "nat \<Rightarrow> bool"
  pov :: "nat \<Rightarrow> 32 word"

record XINPUT_GAMEPAD =
  wButtons :: "16 word"
  bLeftTrigger :: "8 word"
  bRightTrigger :: "8 word"
  sThumbLX :: "16 word"
  sThumbLY :: "16 word"
  sThumbRX :: "16 word"
  sThumbRY :: "16 word"

record XINPUT_STATE =
  dwPacketNumber :: "32 word"
  Gamepad :: XINPUT_GAMEPAD

definition ZeroMemory_XINPUT_STATE :: XINPUT_STATE where
  "ZeroMemory_XINPUT_STATE =
     \<lparr>dwPacketNumber = 0,
      Gamepad = \<lparr>wButtons = 0, bLeftTrigger = 0, bRightTrigger = 0,
                 sThumbLX = 0, sThumbLY = 0, sThumbRX = 0, sThumbRY = 0\<rparr>\<rparr>"

record SStateIdentifier =
  packetNumber :: "32 word"
  errorCode :: "32 word"

text \<open>What \<^verbatim>\<open>Message::OutputFormatted\<close> is called with during a refresh.\<close>

datatype observation =
    Connected
  | ErrorCleared "32 word"
  | Disconnected
  | EncounteredError "32 word"

text \<open>The operations on \<^verbatim>\<open>controllerMutex\<close>, in the order in which a call performs them.\<close>

datatype lock_event = Acquire | Release

text \<open>
  The members of the virtual controller. \<open>messages\<close> and \<open>lockTrace\<close> record the effects of
  the calls that are not stores to a member: the messages written and the operations on
  \<^verbatim>\<open>controllerMutex\<close>, the latest first.
\<close>

record VirtualController =
  state :: SState
  stateIdentifier :: SStateIdentifier
  stateRefreshNeeded :: bool
  properties :: "EAxis \<Rightarrow> VC_SAxisProperties"
  messages :: "observation list"
  lockTrace :: "lock_event list"

text \<open>
  What the source takes from declarations that are not among the sources: the capabilities
  and the state mapping of the mapper (ControllerMapper.h), the bounds of deadzone and
  saturation and the setters of \<^verbatim>\<open>SAxisProperties\<close> (VirtualController.h). They are
  parameters of the model.
\<close>

record vc_env =
  numAxes :: nat
  axisType :: "EAxis list"
  MapXInputState :: "XINPUT_GAMEPAD \<Rightarrow> SState"
  kAxisDeadzoneMin :: "32 word"
  kAxisDeadzoneMax :: "32 word"
  kAxisSaturationMin :: "32 word"
  kAxisSaturationMax :: "32 word"
  SetDeadzone :: "32 word \<Rightarrow> VC_SAxisProperties \<Rightarrow> VC_SAxisProperties"
  SetRange :: "32 word \<Rightarrow> 32 word \<Rightarrow> VC_SAxisProperties \<Rightarrow> VC_SAxisProperties"
  SetSaturation :: "32 word \<Rightarrow> VC_SAxisProperties \<Rightarrow> VC_SAxisProperties"

subsection \<open>Internal functions\<close>

text \<open>
  \<^verbatim>\<open>MapValueInRangeToRange\<close> of VirtualController.cpp. Every operand is an \<^verbatim>\<open>int32_t\<close>, so
  the differences, the product and the sum are computed in 32 bits.
\<close>

definition MapValueInRangeToRange ::
  "32 word \<Rightarrow> 32 word \<Rightarrow> 32 word \<Rightarrow> 32 word \<Rightarrow> 32 word \<Rightarrow> 32 word" where
  "MapValueInRangeToRange oldRangeValue oldRangeOrigin oldRangeDispMax newRangeOrigin newRangeDispMax =
     newRangeOrigin +
       sdiv32 ((oldRangeValue - oldRangeOrigin) * (newRangeDispMax - newRangeOrigin))
              (oldRangeDispMax - oldRangeOrigin)"

definition TransformAxisValue :: "32 word \<Rightarrow> VC_SAxisProperties \<Rightarrow> 32 word" where
  "TransformAxisValue axisValueRaw axisProperties =
     (if sint kAnalogValueNeutral < sint axisValueRaw then
        (if sint axisValueRaw \<le> sint (deadzoneRawCutoffPositive axisProperties) then
           vc_rangeNeutral axisProperties
         else if sint (saturationRawCutoffPositive axisProperties) \<le> sint axisValueRaw then
           vc_rangeMax axisProperties
         else
           MapValueInRangeToRange axisValueRaw
             (deadzoneRawCutoffPositive axisProperties) (saturationRawCutoffPositive axisProperties)
             (vc_rangeNeutral axisProperties) (vc_rangeMax axisProperties))
      else
        (if sint (deadzoneRawCutoffNegative axisProperties) \<le> sint axisValueRaw then
           vc_rangeNeutral axisProperties
         else if sint axisValueRaw \<le> sint (saturationRawCutoffNegative axisProperties) then
           vc_rangeMin axisProperties
         else
           MapValueInRangeToRange axisValueRaw
             (deadzoneRawCutoffNegative axisProperties) (saturationRawCutoffNegative axisProperties)
             (vc_rangeNeutral axisProperties) (vc_rangeMin axisProperties)))"

subsection \<open>Instance methods\<close>

text \<open>
  \<^verbatim>\<open>ApplyProperties\<close>: the loop over the first \<open>numAxes\<close> entries of the capabilities'
  \<open>axisType\<close>, each step transforming the axis it names.
\<close>

definition ApplyProperties_step ::
  "(EAxis \<Rightarrow> VC_SAxisProperties) \<Rightarrow> EAxis \<Rightarrow> SState \<Rightarrow> SState" where
  "ApplyProperties_step props a controllerState =
     controllerState\<lparr>axis := (axis controllerState)
       (a := TransformAxisValue (axis controllerState a) (props a))\<rparr>"

definition ApplyProperties :: "vc_env \<Rightarrow> VirtualController \<Rightarrow> SState \<Rightarrow> SState" where
  "ApplyProperties env vc controllerState =
     fold (ApplyProperties_step (properties vc)) (take (numAxes env) (axisType env)) controllerState"

text \<open>
  The messages of the switch in \<^verbatim>\<open>RefreshState\<close>, by the new and the stored error code.
\<close>

definition refresh_messages :: "32 word \<Rightarrow> 32 word \<Rightarrow> observation list" where
  "refresh_messages newCode oldCode =
     (if newCode = ERROR_SUCCESS then
        (if oldCode = ERROR_SUCCESS then []
         else if oldCode = ERROR_DEVICE_NOT_CONNECTED then [Connected]
         else [ErrorCleared oldCode])
      else if newCode = ERROR_DEVICE_NOT_CONNECTED then
        (if newCode \<noteq> oldCode then [Disconnected] else [])
      else
        (if newCode \<noteq> oldCode then [EncounteredError newCode] else []))"

text \<open>
  \<^verbatim>\<open>RefreshState\<close>. Its first argument after the parameters is what
  \<^verbatim>\<open>xinput->GetState\<close> returned and stored. The scoped lock is acquired after that call and
  released on every return.
\<close>

definition RefreshState ::
  "vc_env \<Rightarrow> 32 word \<times> XINPUT_STATE \<Rightarrow> VirtualController \<Rightarrow> bool \<times> VirtualController" where
  "RefreshState env xinputGetState vc =
     (let newErrorCode = fst xinputGetState;
          vc1 = vc\<lparr>lockTrace := Acquire # lockTrace vc, stateRefreshNeeded := False\<rparr>;
          oldId = stateIdentifier vc1;
          newStateIdentifier =
            \<lparr>packetNumber =
               (if newErrorCode = ERROR_SUCCESS then dwPacketNumber (snd xinputGetState) else 0),
             errorCode = newErrorCode\<rparr>;
          xinputState =
            (if newErrorCode = ERROR_SUCCESS then snd xinputGetState else ZeroMemory_XINPUT_STATE);
          vc2 = vc1\<lparr>messages := refresh_messages newErrorCode (errorCode oldId) @ messages vc1\<rparr>
      in
        if packetNumber newStateIdentifier = packetNumber oldId
           \<or> (ERROR_SUCCESS = errorCode newStateIdentifier \<and> ERROR_SUCCESS \<noteq> errorCode oldId)
           \<or> (ERROR_SUCCESS \<noteq> errorCode newStateIdentifier \<and> ERROR_SUCCESS = errorCode oldId)
        then (False, vc2\<lparr>lockTrace := Release # lockTrace vc2\<rparr>)
        else
          (let vc3 = vc2\<lparr>stateIdentifier := newStateIdentifier\<rparr>;
               newState = ApplyProperties env vc3 (MapXInputState env (Gamepad xinputState))
           in
             if newState = state vc3
             then (False, vc3\<lparr>lockTrace := Release # lockTrace vc3\<rparr>)
             else (True, vc3\<lparr>state := newState, lockTrace := Release # lockTrace vc3\<rparr>)))"

text \<open>
  \<^verbatim>\<open>GetState\<close>: the copy of \<open>state\<close> is the first component of the result. The scoped lock
  is held from the first statement to the return, the call of \<^verbatim>\<open>RefreshState\<close> included.
\<close>

definition GetState ::
  "vc_env \<Rightarrow> 32 word \<times> XINPUT_STATE \<Rightarrow> VirtualController \<Rightarrow> SState \<times> VirtualController" where
  "GetState env xinputGetState vc =
     (let vc1 = vc\<lparr>lockTrace := Acquire # lockTrace vc\<rparr>;
          vc2 = (if stateRefreshNeeded vc1 then snd (RefreshState env xinputGetState vc1) else vc1)
      in (state vc2, vc2\<lparr>stateRefreshNeeded := True, lockTrace := Release # lockTrace vc2\<rparr>))"

text \<open>The setters: the bounds are checked before the lock is taken and anything is stored.\<close>

definition SetAxisDeadzone :: "vc_env \<Rightarrow> EAxis \<Rightarrow> 32 word \<Rightarrow> VirtualController \<Rightarrow> bool \<times> VirtualController" where
  "SetAxisDeadzone env a deadzone vc =
     (if kAxisDeadzoneMin env \<le> deadzone \<and> deadzone \<le> kAxisDeadzoneMax env then
        (True, vc\<lparr>properties := (properties vc)(a := SetDeadzone env deadzone (properties vc a)),
                  lockTrace := Release # Acquire # lockTrace vc\<rparr>)
      else (False, vc))"

definition SetAxisRange ::
  "vc_env \<Rightarrow> EAxis \<Rightarrow> 32 word \<Rightarrow> 32 word \<Rightarrow> VirtualController \<Rightarrow> bool \<times> VirtualController" where
  "SetAxisRange env a rangeMin rangeMax vc =
     (if sint rangeMin < sint rangeMax then
        (True, vc\<lparr>properties := (properties vc)(a := SetRange env rangeMin rangeMax (properties vc a)),
                  lockTrace := Release # Acquire # lockTrace vc\<rparr>)
      else (False, vc))"

definition SetAxisSaturation :: "vc_env \<Rightarrow> EAxis \<Rightarrow> 32 word \<Rightarrow> VirtualController \<Rightarrow> bool \<times> VirtualController" where
  "SetAxisSaturation env a saturation vc =
     (if kAxisSaturationMin env \<le> saturation \<and> saturation \<le> kAxisSaturationMax env then
        (True, vc\<lparr>properties := (properties vc)(a := SetSaturation env saturation (properties vc a)),
                  lockTrace := Release # Acquire # lockTrace vc\<rparr>)
      else (False, vc))"

text \<open>
  The bulk setters loop over the \<^verbatim>\<open>_countof(properties.axis)\<close> entries of the array, one
  entry per member of \<^verbatim>\<open>EAxis\<close>, and replace one entry in each iteration.
\<close>

definition EAxis_all :: "EAxis list" where
  "EAxis_all = [AxisX, AxisY, AxisZ, AxisRotX, AxisRotY, AxisRotZ]"

definition set_every_axis ::
  "(VC_SAxisProperties \<Rightarrow> VC_SAxisProperties) \<Rightarrow> (EAxis \<Rightarrow> VC_SAxisProperties)
     \<Rightarrow> (EAxis \<Rightarrow> VC_SAxisProperties)" where
  "set_every_axis f props = fold (\<lambda>a ps. ps(a := f (ps a))) EAxis_all props"

definition SetAllAxisDeadzone :: "vc_env \<Rightarrow> 32 word \<Rightarrow> VirtualController \<Rightarrow> bool \<times> VirtualController" where
  "SetAllAxisDeadzone env deadzone vc =
     (if kAxisDeadzoneMin env \<le> deadzone \<and> deadzone \<le> kAxisDeadzoneMax env then
        (True, vc\<lparr>properties := set_every_axis (SetDeadzone env deadzone) (properties vc),
                  lockTrace := Release # Acquire # lockTrace vc\<rparr>)
      else (False, vc))"

definition SetAllAxisRange ::
  "vc_env \<Rightarrow> 32 word \<Rightarrow> 32 word \<Rightarrow> VirtualController \<Rightarrow> bool \<times> VirtualController" where
  "SetAllAxisRange env rangeMin rangeMax vc =
     (if sint rangeMin < sint rangeMax then
        (True, vc\<lparr>properties := set_every_axis (SetRange env rangeMin rangeMax) (properties vc),
                  lockTrace := Release # Acquire # lockTrace vc\<rparr>)
      else (False, vc))"

definition SetAllAxisSaturation :: "vc_env \<Rightarrow> 32 word \<Rightarrow> VirtualController \<Rightarrow> bool \<times> VirtualController" where
  "SetAllAxisSaturation env saturation vc =
     (if kAxisSaturationMin env \<le> saturation \<and> saturation \<le> kAxisSaturationMax env then
        (True, vc\<lparr>properties := set_every_axis (SetSaturation env saturation) (properties vc),
                  lockTrace := Release # Acquire # lockTrace vc\<rparr>)
      else (False, vc))"

text \<open>
  The number of times \<^verbatim>\<open>controllerMutex\<close> is held after a sequence of operations (the
  latest first, as \<open>lockTrace\<close> records them), and whether some operation of the sequence
  acquires the mutex while it is held.
\<close>

fun heldAfter :: "lock_event list \<Rightarrow> nat" where
  "heldAfter [] = 0"
| "heldAfter (Acquire # es) = Suc (heldAfter es)"
| "heldAfter (Release # es) = heldAfter es - 1"

fun nestedAcquire :: "lock_event list \<Rightarrow> bool" where
  "nestedAcquire [] = False"
| "nestedAcquire (Acquire # es) = (0 < heldAfter es \<or> nestedAcquire es)"
| "nestedAcquire (Release # es) = nestedAcquire es"

subsection \<open>An example of a virtual controller\<close>

text \<open>
  A virtual controller for the statements about concrete inputs: four axes, the state
  mapping that copies the left stick to the axes X and Y, setters that store a deadzone or
  a saturation as the raw cutoffs and a range with its midpoint as the neutral value, the
  bounds 0 and 10000. Its state is neutral, its identifier is the packet 7 of a connected
  controller, and a refresh is needed.
\<close>

definition example_neutral_state :: SState where
  "example_neutral_state = \<lparr>axis = (\<lambda>a. 0), button = (\<lambda>b. False), pov = (\<lambda>p. - 1)\<rparr>"

definition example_vc_env :: vc_env where
  "example_vc_env =
     \<lparr>numAxes = 4, axisType = [AxisX, AxisY, AxisZ, AxisRotZ],
      MapXInputState =
        (\<lambda>g. example_neutral_state
               \<lparr>axis := (\<lambda>a. if a = AxisX then scast (sThumbLX g)
                              else if a = AxisY then scast (sThumbLY g) else 0)\<rparr>),
      kAxisDeadzoneMin = 0, kAxisDeadzoneMax = 10000,
      kAxisSaturationMin = 0, kAxisSaturationMax = 10000,
      SetDeadzone = (\<lambda>d p. p\<lparr>deadzoneRawCutoffPositive := d, deadzoneRawCutoffNegative := - d\<rparr>),
      SetRange = (\<lambda>lo hi p. p\<lparr>vc_rangeMin := lo, vc_rangeMax := hi,
                                vc_rangeNeutral := sdiv32 (lo + hi) 2\<rparr>),
      SetSaturation =
        (\<lambda>s p. p\<lparr>saturationRawCutoffPositive := s, saturationRawCutoffNegative := - s\<rparr>)\<rparr>"

definition example_vc_properties :: VC_SAxisProperties where
  "example_vc_properties =
     \<lparr>deadzoneRawCutoffPositive = 0, deadzoneRawCutoffNegative = 0,
      saturationRawCutoffPositive = 32767, saturationRawCutoffNegative = - 32768,
      vc_rangeMin = - 32768, vc_rangeNeutral = 0, vc_rangeMax = 32767\<rparr>"

definition example_vc :: VirtualController where
  "example_vc =
     \<lparr>state = example_neutral_state,
      stateIdentifier = \<lparr>packetNumber = 7, errorCode = ERROR_SUCCESS\<rparr>,
      stateRefreshNeeded = True,
      properties = (\<lambda>a. example_vc_properties),
      messages = [], lockTrace = []\<rparr>"

text \<open>
  Modelled from the spec: what \<^verbatim>\<open>SetRange\<close> stores is declared in VirtualController.h,
  which is not among the sources; by the spec the neutral output of an axis is the midpoint
  \<open>(rangeMin + rangeMax) / 2\<close> of its range, as the setter of the example has it. The
  controller of the example after \<^verbatim>\<open>SetAxisRange(AxisX, -1000000, 1000000)\<close>, and a state
  of the XInput controller, the packet 8, with the left stick at 32766 to the right.
\<close>

definition example_wide_vc :: VirtualController where
  "example_wide_vc = snd (SetAxisRange example_vc_env AxisX (- 1000000) 1000000 example_vc)"

definition example_right_state :: XINPUT_STATE where
  "example_right_state =
     \<lparr>dwPacketNumber = 8,
      Gamepad = \<lparr>wButtons = 0, bLeftTrigger = 0, bRightTrigger = 0,
                 sThumbLX = 32766, sThumbLY = 0, sThumbRX = 0, sThumbRY = 0\<rparr>\<rparr>"

subsection \<open>The records of the axis properties and the values in their range\<close>




text \<open>
  The remap of the specification, to compare \<^verbatim>\<open>MapValueInRangeToRange\<close> with: the same
  formula with the product carried in a 64-bit accumulator. The product of two 32-bit
  values always fits 64 bits, so it is the product of the integers.
\<close>

definition remap :: "32 word \<Rightarrow> 32 word \<Rightarrow> 32 word \<Rightarrow> 32 word \<Rightarrow> 32 word \<Rightarrow> 32 word" where
  "remap v a0 a1 b0 b1 =
     b0 + word_of_int ((sint (v - a0) * sint (b1 - b0)) sdiv sint (a1 - a0))"

section \<open>Mapper.cpp\<close>

subsection \<open>Data\<close>

datatype EInstanceType = InstanceTypeAxis | InstanceTypePov | InstanceTypeButton

datatype EXInputControllerElement =
    StickLeftHorizontal | StickLeftVertical | StickRightHorizontal | StickRightVertical
  | TriggerLT | TriggerRT | Dpad
  | ButtonA | ButtonB | ButtonX | ButtonY | ButtonLB | ButtonRB
  | ButtonBack | ButtonStart | ButtonLeftStick | ButtonRightStick

text \<open>The object identifiers that the source compares a \<^verbatim>\<open>pguid\<close> with, and any other.\<close>

datatype GUID =
    GUID_XAxis | GUID_YAxis | GUID_ZAxis | GUID_RxAxis | GUID_RyAxis | GUID_RzAxis
  | GUID_Slider | GUID_Button | GUID_Key | GUID_POV | GUID_Unknown | GUID_other nat

text \<open>The result codes that the mapper returns (\<^verbatim>\<open>S_OK\<close> is \<^verbatim>\<open>DI_OK\<close>).\<close>

datatype HRESULT =
    DI_OK | DI_PROPNOEFFECT
  | DIERR_INVALIDPARAM | DIERR_GENERIC | DIERR_UNSUPPORTED | DIERR_OBJECTNOTFOUND

text \<open>\<^verbatim>\<open>Mapper::SAxisProperties\<close>: \<^verbatim>\<open>LONG\<close> range, \<^verbatim>\<open>DWORD\<close> deadzone and saturation.\<close>

record SAxisProperties =
  rangeMin :: "32 word"
  rangeMax :: "32 word"
  deadzone :: "32 word"
  saturation :: "32 word"

text \<open>
  The members of \<^verbatim>\<open>Mapper\<close>. An instance identifier (\<^verbatim>\<open>TInstance\<close>) is a signed integer,
  negative when it identifies nothing; the two \<^verbatim>\<open>unordered_map\<close>s are partial functions, the
  three \<^verbatim>\<open>unordered_set\<close>s are sets; \<open>axisProperties\<close> is \<open>None\<close> while the pointer is null.
\<close>

record Mapper =
  axisProperties :: "SAxisProperties list option"
  cachedValueXInputLT :: "32 word"
  cachedValueXInputRT :: "32 word"
  dataPacketSize :: "32 word"
  instanceToOffset :: "int \<rightharpoonup> 32 word"
  mapsValid :: bool
  offsetToInstance :: "32 word \<rightharpoonup> int"
  axisOffsetsUnused :: "32 word set"
  buttonOffsetsUnused :: "32 word set"
  povOffsetsUnused :: "32 word set"

text \<open>
  What Mapper.cpp takes from declarations that are not among the sources. The methods that
  the subclass of a mapping profile defines: \<open>NumInstancesOfType\<close>, \<open>AxisInstanceIndex\<close>,
  \<open>MapXInputElementToDirectInputInstance\<close>. The inline functions of Mapper.h that encode and
  decode an instance identifier: \<open>MakeInstanceIdentifier\<close>, \<open>ExtractIdentifierInstanceType\<close>,
  \<open>ExtractIdentifierInstanceIndex\<close>. The bound \<open>kMaxDataPacketSize\<close>. They are parameters of
  the model. An instance index (\<^verbatim>\<open>TInstanceIdx\<close>) is a signed integer, an instance count a
  natural number.
\<close>

record mapper_env =
  NumInstancesOfType :: "EInstanceType \<Rightarrow> nat"
  AxisInstanceIndex :: "GUID \<Rightarrow> int \<Rightarrow> int"
  MapXInputElementToDirectInputInstance :: "EXInputControllerElement \<Rightarrow> int"
  MakeInstanceIdentifier :: "EInstanceType \<Rightarrow> int \<Rightarrow> int"
  ExtractIdentifierInstanceType :: "int \<Rightarrow> EInstanceType"
  ExtractIdentifierInstanceIndex :: "int \<Rightarrow> int"
  kMaxDataPacketSize :: "32 word"

text \<open>
  Modelled from the spec: the constants of XInputController.h and Mapper.h, which are not
  among the sources. The spec gives the stick raw range as \<^verbatim>\<open>[-32768, 32767]\<close>, the trigger
  raw range as \<^verbatim>\<open>[0, 255]\<close>, the neutral value as 0, the default axis range as
  \<^verbatim>\<open>-32768..=+32767\<close>, the default deadzone as 0, the default saturation as the maximum, and
  deadzone and saturation as fixed-point numbers of \<^verbatim>\<open>0..10000\<close> (the scale that
  \<^verbatim>\<open>ApplyAxisPropertiesToRawValue\<close> writes as the literal 10000).
\<close>

definition kStickRangeMin :: "32 word" where "kStickRangeMin = - 32768"
definition kStickRangeMax :: "32 word" where "kStickRangeMax = 32767"
definition kTriggerRangeMin :: "32 word" where "kTriggerRangeMin = 0"
definition kTriggerRangeMax :: "32 word" where "kTriggerRangeMax = 255"
definition kTriggerNeutral :: "32 word" where "kTriggerNeutral = 0"
definition kDefaultAxisRangeMin :: "32 word" where "kDefaultAxisRangeMin = - 32768"
definition kDefaultAxisRangeMax :: "32 word" where "kDefaultAxisRangeMax = 32767"
definition kDefaultAxisDeadzone :: "32 word" where "kDefaultAxisDeadzone = 0"
definition kDefaultAxisSaturation :: "32 word" where "kDefaultAxisSaturation = 10000"
definition kMinAxisDeadzoneSaturation :: "32 word" where "kMinAxisDeadzoneSaturation = 0"
definition kMaxAxisDeadzoneSaturation :: "32 word" where "kMaxAxisDeadzoneSaturation = 10000"

text \<open>
  The constants and macros of the platform's dinput.h and Xinput.h that the source uses.
\<close>

definition DIDFT_ABSAXIS :: "32 word" where "DIDFT_ABSAXIS = 0x00000002"
definition DIDFT_PSHBUTTON :: "32 word" where "DIDFT_PSHBUTTON = 0x00000004"
definition DIDFT_POV :: "32 word" where "DIDFT_POV = 0x00000010"
definition DIDFT_INSTANCEMASK :: "32 word" where "DIDFT_INSTANCEMASK = 0x00FFFF00"
definition DIDFT_ANYINSTANCE :: "32 word" where "DIDFT_ANYINSTANCE = 0x00FFFF00"
definition DIPH_DEVICE :: "32 word" where "DIPH_DEVICE = 0"
definition DIPH_BYOFFSET :: "32 word" where "DIPH_BYOFFSET = 1"
definition DIPH_BYID :: "32 word" where "DIPH_BYID = 2"
definition DIPROPAXISMODE_ABS :: "32 word" where "DIPROPAXISMODE_ABS = 0"
definition sizeof_DIPROPHEADER :: "32 word" where "sizeof_DIPROPHEADER = 16"
definition sizeof_DIPROPDWORD :: "32 word" where "sizeof_DIPROPDWORD = 20"
definition sizeof_DIPROPRANGE :: "32 word" where "sizeof_DIPROPRANGE = 24"
definition XINPUT_GAMEPAD_TRIGGER_THRESHOLD :: "8 word" where "XINPUT_GAMEPAD_TRIGGER_THRESHOLD = 30"

text \<open>\<^verbatim>\<open>DIDFT_GETTYPE(n)\<close> is \<^verbatim>\<open>LOBYTE(n)\<close>, \<^verbatim>\<open>DIDFT_GETINSTANCE(n)\<close> is \<^verbatim>\<open>LOWORD((n) >> 8)\<close>.\<close>

definition DIDFT_GETTYPE :: "32 word \<Rightarrow> 8 word" where
  "DIDFT_GETTYPE n = ucast n"

definition DIDFT_GETINSTANCE :: "32 word \<Rightarrow> 16 word" where
  "DIDFT_GETINSTANCE n = ucast (drop_bit 8 n)"

text \<open>
  The cast \<^verbatim>\<open>(TInstanceIdx)\<close> of the 16 bits of an instance number. \<^verbatim>\<open>TInstanceIdx\<close> is
  declared in Mapper.h; the source tests its values with \<^verbatim>\<open>>= 0\<close>, so it is signed, and it is
  read here as a signed 16-bit integer.
\<close>

definition TInstanceIdx_cast :: "16 word \<Rightarrow> int" where
  "TInstanceIdx_cast w = sint w"

record DIOBJECTDATAFORMAT =
  pguid :: "GUID option"
  dwOfs :: "32 word"
  dwType :: "32 word"
  dwFlags :: "32 word"

text \<open>
  \<^verbatim>\<open>DIDATAFORMAT\<close>: the packet size and the array \<^verbatim>\<open>rgodf\<close> of \<^verbatim>\<open>dwNumObjs\<close> object
  specifications, a list.
\<close>

record DIDATAFORMAT =
  dwDataSize :: "32 word"
  rgodf :: "DIOBJECTDATAFORMAT list"

subsection \<open>Helpers\<close>

definition SizeofInstance :: "EInstanceType \<Rightarrow> 32 word" where
  "SizeofInstance t =
     (case t of InstanceTypeAxis \<Rightarrow> 4 | InstanceTypePov \<Rightarrow> 4 | InstanceTypeButton \<Rightarrow> 1)"

text \<open>
  \<^verbatim>\<open>CheckAndSetOffsets(&offsetUsed[at], count)\<close>. The first argument is the whole array and the
  second the index that \<^verbatim>\<open>base\<close> points to. The two loops are the two recursions, on the
  number of entries left. A read or a write outside the array has no defined result:
  \<open>None\<close>.
\<close>

primrec CheckAndSetOffsets_check :: "bool list \<Rightarrow> nat \<Rightarrow> nat \<Rightarrow> bool option" where
  "CheckAndSetOffsets_check arr at 0 = Some True"
| "CheckAndSetOffsets_check arr at (Suc n) =
     (if at < length arr then
        (if arr ! at then Some False else CheckAndSetOffsets_check arr (Suc at) n)
      else None)"

primrec CheckAndSetOffsets_set :: "bool list \<Rightarrow> nat \<Rightarrow> nat \<Rightarrow> bool list option" where
  "CheckAndSetOffsets_set arr at 0 = Some arr"
| "CheckAndSetOffsets_set arr at (Suc n) =
     (if at < length arr then CheckAndSetOffsets_set (arr[at := True]) (Suc at) n else None)"

definition CheckAndSetOffsets :: "bool list \<Rightarrow> nat \<Rightarrow> nat \<Rightarrow> (bool \<times> bool list) option" where
  "CheckAndSetOffsets arr at count =
     (case CheckAndSetOffsets_check arr at count of
        None \<Rightarrow> None
      | Some False \<Rightarrow> Some (False, arr)
      | Some True \<Rightarrow>
          (case CheckAndSetOffsets_set arr at count of
             None \<Rightarrow> None
           | Some arr' \<Rightarrow> Some (True, arr')))"

text \<open>\<^verbatim>\<open>unordered_map::insert\<close> stores nothing when the key is present.\<close>

definition map_insert :: "('k \<rightharpoonup> 'v) \<Rightarrow> 'k \<Rightarrow> 'v \<Rightarrow> ('k \<rightharpoonup> 'v)" where
  "map_insert m k v = (case m k of None \<Rightarrow> m(k \<mapsto> v) | Some old \<Rightarrow> m)"

definition MapInstanceAndOffset :: "int \<Rightarrow> 32 word \<Rightarrow> Mapper \<Rightarrow> Mapper" where
  "MapInstanceAndOffset instance offset m =
     m\<lparr>instanceToOffset := map_insert (instanceToOffset m) instance offset,
       offsetToInstance := map_insert (offsetToInstance m) offset instance\<rparr>"

text \<open>
  \<^verbatim>\<open>SelectInstance\<close>: the identifier selected (or \<open>-1\<close>) and the array \<^verbatim>\<open>instanceUsed\<close>
  afterwards. The array has \<open>instanceCount\<close> entries.
\<close>

definition SelectInstance ::
  "mapper_env \<Rightarrow> EInstanceType \<Rightarrow> bool list \<Rightarrow> nat \<Rightarrow> int \<Rightarrow> int \<times> bool list" where
  "SelectInstance env instanceType instanceUsed instanceCount instanceToSelect =
     (if 0 \<le> instanceToSelect \<and> instanceToSelect < int instanceCount
         \<and> \<not> instanceUsed ! nat instanceToSelect
      then (MakeInstanceIdentifier env instanceType instanceToSelect,
            instanceUsed[nat instanceToSelect := True])
      else (- 1, instanceUsed))"

definition InitializeAxisProperties :: "mapper_env \<Rightarrow> Mapper \<Rightarrow> Mapper" where
  "InitializeAxisProperties env m =
     (case axisProperties m of
        None \<Rightarrow>
          m\<lparr>axisProperties := Some (replicate (NumInstancesOfType env InstanceTypeAxis)
               \<lparr>rangeMin = kDefaultAxisRangeMin, rangeMax = kDefaultAxisRangeMax,
                deadzone = kDefaultAxisDeadzone, saturation = kDefaultAxisSaturation\<rparr>)\<rparr>
      | Some ps \<Rightarrow> m)"

definition IsApplicationDataFormatSet :: "Mapper \<Rightarrow> bool" where
  "IsApplicationDataFormatSet m = mapsValid m"

definition InstanceForOffset :: "Mapper \<Rightarrow> 32 word \<Rightarrow> int" where
  "InstanceForOffset m offset =
     (if IsApplicationDataFormatSet m then
        (case offsetToInstance m offset of None \<Rightarrow> - 1 | Some i \<Rightarrow> i)
      else - 1)"

text \<open>The result is a \<^verbatim>\<open>LONG\<close>: the offset found, converted, or \<open>-1\<close>.\<close>

definition OffsetForInstance :: "Mapper \<Rightarrow> int \<Rightarrow> 32 word" where
  "OffsetForInstance m instance =
     (if IsApplicationDataFormatSet m then
        (case instanceToOffset m instance of None \<Rightarrow> - 1 | Some ofs \<Rightarrow> ofs)
      else - 1)"

definition ResetApplicationDataFormat :: "Mapper \<Rightarrow> Mapper" where
  "ResetApplicationDataFormat m =
     m\<lparr>instanceToOffset := Map.empty, offsetToInstance := Map.empty,
       axisOffsetsUnused := {}, buttonOffsetsUnused := {}, povOffsetsUnused := {},
       mapsValid := False\<rparr>"

subsection \<open>SetApplicationDataFormat\<close>

text \<open>
  The local variables of \<^verbatim>\<open>SetApplicationDataFormat\<close> that live across the iterations of its
  loop. The next-unused indices start at 0 and only grow: natural numbers.
\<close>

record df_locals =
  nextUnusedButton :: nat
  nextUnusedAxis :: nat
  nextUnusedPov :: nat
  buttonUsed :: "bool list"
  axisUsed :: "bool list"
  povUsed :: "bool list"
  offsetUsed :: "bool list"

text \<open>
  The search for an unused axis of the type that a \<^verbatim>\<open>pguid\<close> names (any instance allowed):
  the call before the \<^verbatim>\<open>while\<close> loop and the loop, from the instance number
  \<open>instanceIndex\<close> on. The result is \<^verbatim>\<open>selectedInstance\<close>, \<^verbatim>\<open>axisIndex\<close> and \<^verbatim>\<open>axisUsed\<close>
  after the loop. Whether the loop ends depends on \<open>AxisInstanceIndex\<close>; \<open>None\<close> when it does
  not.
\<close>

partial_function (option) select_axis_of_type ::
  "mapper_env \<Rightarrow> GUID \<Rightarrow> bool list \<Rightarrow> int \<Rightarrow> (int \<times> int \<times> bool list) option" where
  "select_axis_of_type env guid used instanceIndex =
     (if fst (SelectInstance env InstanceTypeAxis used (NumInstancesOfType env InstanceTypeAxis)
                (AxisInstanceIndex env guid instanceIndex)) < 0
         \<and> 0 \<le> AxisInstanceIndex env guid instanceIndex
      then select_axis_of_type env guid
             (snd (SelectInstance env InstanceTypeAxis used (NumInstancesOfType env InstanceTypeAxis)
                (AxisInstanceIndex env guid instanceIndex)))
             (instanceIndex + 1)
      else Some (fst (SelectInstance env InstanceTypeAxis used (NumInstancesOfType env InstanceTypeAxis)
                        (AxisInstanceIndex env guid instanceIndex)),
                 AxisInstanceIndex env guid instanceIndex,
                 snd (SelectInstance env InstanceTypeAxis used (NumInstancesOfType env InstanceTypeAxis)
                        (AxisInstanceIndex env guid instanceIndex))))"

text \<open>
  The check of an object's offsets, common to the three branches: \<open>Some None\<close> when the
  object does not fit the packet or overlaps (\<^verbatim>\<open>invalidParamsDetected\<close>), \<open>Some (Some l)\<close> with
  the offsets marked otherwise. The sum \<^verbatim>\<open>dwOfs + SizeofInstance(..)\<close> is a \<^verbatim>\<open>DWORD\<close>'s and
  wraps around.
\<close>

definition claim_offsets ::
  "32 word \<Rightarrow> EInstanceType \<Rightarrow> DIOBJECTDATAFORMAT \<Rightarrow> df_locals \<Rightarrow> df_locals option option" where
  "claim_offsets dataSize t dataFormat l =
     (if \<not> (dwOfs dataFormat + SizeofInstance t \<le> dataSize) then Some None
      else
        (case CheckAndSetOffsets (offsetUsed l) (unat (dwOfs dataFormat)) (unat (SizeofInstance t)) of
           None \<Rightarrow> None
         | Some (False, arr) \<Rightarrow> Some None
         | Some (True, arr) \<Rightarrow> Some (Some (l\<lparr>offsetUsed := arr\<rparr>))))"

text \<open>
  The three branches of the loop body, after the offsets are claimed. Each gives
  \<^verbatim>\<open>invalidParamsDetected\<close>, the local variables and the mapper afterwards.
\<close>

definition pick_axis ::
  "mapper_env \<Rightarrow> bool \<Rightarrow> int \<Rightarrow> DIOBJECTDATAFORMAT \<Rightarrow> df_locals \<Rightarrow> Mapper
     \<Rightarrow> (bool \<times> df_locals \<times> Mapper) option" where
  "pick_axis env allowAnyInstance specificInstance dataFormat l m =
     (case pguid dataFormat of
        None \<Rightarrow>
          (let instanceToSelect = (if allowAnyInstance then int (nextUnusedAxis l) else specificInstance);
               sel = SelectInstance env InstanceTypeAxis (axisUsed l)
                       (NumInstancesOfType env InstanceTypeAxis) instanceToSelect;
               l' = l\<lparr>axisUsed := snd sel\<rparr>
           in if 0 \<le> fst sel then Some (False, l', MapInstanceAndOffset (fst sel) (dwOfs dataFormat) m)
              else if \<not> allowAnyInstance then Some (True, l', m)
              else Some (False, l',
                     m\<lparr>axisOffsetsUnused := insert (dwOfs dataFormat) (axisOffsetsUnused m)\<rparr>))
      | Some guid \<Rightarrow>
          (if allowAnyInstance then
             (case select_axis_of_type env guid (axisUsed l) 0 of
                None \<Rightarrow> None
              | Some (selectedInstance, axisIndex, used) \<Rightarrow>
                  (if 0 \<le> selectedInstance then
                     Some (False, l\<lparr>axisUsed := used\<rparr>,
                       MapInstanceAndOffset (MakeInstanceIdentifier env InstanceTypeAxis axisIndex)
                         (dwOfs dataFormat) m)
                   else
                     Some (False, l\<lparr>axisUsed := used\<rparr>,
                       m\<lparr>axisOffsetsUnused := insert (dwOfs dataFormat) (axisOffsetsUnused m)\<rparr>)))
           else
             (let axisIndex = AxisInstanceIndex env guid specificInstance;
                  sel = SelectInstance env InstanceTypeAxis (axisUsed l)
                          (NumInstancesOfType env InstanceTypeAxis) axisIndex;
                  l' = l\<lparr>axisUsed := snd sel\<rparr>
              in if 0 \<le> fst sel then Some (False, l', MapInstanceAndOffset (fst sel) (dwOfs dataFormat) m)
                 else Some (True, l', m))))"

definition pick_button ::
  "mapper_env \<Rightarrow> bool \<Rightarrow> int \<Rightarrow> DIOBJECTDATAFORMAT \<Rightarrow> df_locals \<Rightarrow> Mapper
     \<Rightarrow> (bool \<times> df_locals \<times> Mapper) option" where
  "pick_button env allowAnyInstance specificInstance dataFormat l m =
     (if pguid dataFormat = None \<or> pguid dataFormat = Some GUID_Button then
        (let instanceToSelect = (if allowAnyInstance then int (nextUnusedButton l) else specificInstance);
             sel = SelectInstance env InstanceTypeButton (buttonUsed l)
                     (NumInstancesOfType env InstanceTypeButton) instanceToSelect;
             l' = l\<lparr>buttonUsed := snd sel\<rparr>
         in if 0 < fst sel then Some (False, l', MapInstanceAndOffset (fst sel) (dwOfs dataFormat) m)
            else if \<not> allowAnyInstance then Some (True, l', m)
            else Some (False, l',
                   m\<lparr>buttonOffsetsUnused := insert (dwOfs dataFormat) (buttonOffsetsUnused m)\<rparr>))
      else Some (True, l, m))"

definition pick_pov ::
  "mapper_env \<Rightarrow> bool \<Rightarrow> int \<Rightarrow> DIOBJECTDATAFORMAT \<Rightarrow> df_locals \<Rightarrow> Mapper
     \<Rightarrow> (bool \<times> df_locals \<times> Mapper) option" where
  "pick_pov env allowAnyInstance specificInstance dataFormat l m =
     (if pguid dataFormat = None \<or> pguid dataFormat = Some GUID_POV then
        (let instanceToSelect = (if allowAnyInstance then int (nextUnusedPov l) else specificInstance);
             sel = SelectInstance env InstanceTypePov (povUsed l)
                     (NumInstancesOfType env InstanceTypePov) instanceToSelect;
             l' = l\<lparr>povUsed := snd sel\<rparr>
         in if 0 < fst sel then Some (False, l', MapInstanceAndOffset (fst sel) (dwOfs dataFormat) m)
            else if \<not> allowAnyInstance then Some (True, l', m)
            else Some (False, l',
                   m\<lparr>povOffsetsUnused := insert (dwOfs dataFormat) (povOffsetsUnused m)\<rparr>))
      else Some (True, l, m))"

text \<open>
  One iteration of the loop up to the test of \<^verbatim>\<open>invalidParamsDetected\<close>: the object
  specification \<open>dataFormat\<close> is an axis when \<^verbatim>\<open>dwType & DIDFT_ABSAXIS\<close> is not zero, else a
  button when \<^verbatim>\<open>dwType & DIDFT_PSHBUTTON\<close> is not zero, else a POV when \<^verbatim>\<open>dwType & DIDFT_POV\<close>
  is not zero, else an error.
\<close>

definition process_object ::
  "mapper_env \<Rightarrow> 32 word \<Rightarrow> DIOBJECTDATAFORMAT \<Rightarrow> df_locals \<Rightarrow> Mapper
     \<Rightarrow> (bool \<times> df_locals \<times> Mapper) option" where
  "process_object env dataSize dataFormat l m =
     (let allowAnyInstance = (dwType dataFormat AND DIDFT_INSTANCEMASK = DIDFT_ANYINSTANCE);
          specificInstance = TInstanceIdx_cast (DIDFT_GETINSTANCE (dwType dataFormat))
      in
        if dwType dataFormat AND DIDFT_ABSAXIS \<noteq> 0 then
          (case claim_offsets dataSize InstanceTypeAxis dataFormat l of
             None \<Rightarrow> None
           | Some None \<Rightarrow> Some (True, l, m)
           | Some (Some l1) \<Rightarrow> pick_axis env allowAnyInstance specificInstance dataFormat l1 m)
        else if dwType dataFormat AND DIDFT_PSHBUTTON \<noteq> 0 then
          (case claim_offsets dataSize InstanceTypeButton dataFormat l of
             None \<Rightarrow> None
           | Some None \<Rightarrow> Some (True, l, m)
           | Some (Some l1) \<Rightarrow> pick_button env allowAnyInstance specificInstance dataFormat l1 m)
        else if dwType dataFormat AND DIDFT_POV \<noteq> 0 then
          (case claim_offsets dataSize InstanceTypePov dataFormat l of
             None \<Rightarrow> None
           | Some None \<Rightarrow> Some (True, l, m)
           | Some (Some l1) \<Rightarrow> pick_pov env allowAnyInstance specificInstance dataFormat l1 m)
        else Some (True, l, m))"

text \<open>
  The loops that increment the next-unused indices. The source reads \<^verbatim>\<open>used[next]\<close> before
  it tests \<^verbatim>\<open>next < count\<close>; the entry read when \<^verbatim>\<open>next\<close> is the count does not change the
  result, and the test is written first here.
\<close>

function advance_next_unused :: "bool list \<Rightarrow> nat \<Rightarrow> nat \<Rightarrow> nat" where
  "advance_next_unused used count n =
     (if n < count \<and> used ! n then advance_next_unused used count (Suc n) else n)"
  by pat_completeness auto
termination
  by (relation "measure (\<lambda>(used, count, n). count - n)") auto

definition advance_all :: "mapper_env \<Rightarrow> df_locals \<Rightarrow> df_locals" where
  "advance_all env l =
     l\<lparr>nextUnusedAxis :=
         advance_next_unused (axisUsed l) (NumInstancesOfType env InstanceTypeAxis) (nextUnusedAxis l),
       nextUnusedButton :=
         advance_next_unused (buttonUsed l) (NumInstancesOfType env InstanceTypeButton) (nextUnusedButton l),
       nextUnusedPov :=
         advance_next_unused (povUsed l) (NumInstancesOfType env InstanceTypePov) (nextUnusedPov l)\<rparr>"

text \<open>The loop over the object specifications, and what follows it.\<close>

fun objects_loop ::
  "mapper_env \<Rightarrow> 32 word \<Rightarrow> DIOBJECTDATAFORMAT list \<Rightarrow> df_locals \<Rightarrow> Mapper
     \<Rightarrow> (HRESULT \<times> Mapper) option" where
  "objects_loop env dataSize [] l m = Some (DI_OK, m\<lparr>mapsValid := True\<rparr>)"
| "objects_loop env dataSize (dataFormat # rest) l m =
     (case process_object env dataSize dataFormat l m of
        None \<Rightarrow> None
      | Some (invalidParamsDetected, l', m') \<Rightarrow>
          (if invalidParamsDetected then Some (DIERR_INVALIDPARAM, m')
           else objects_loop env dataSize rest (advance_all env l') m'))"

definition initial_locals :: "mapper_env \<Rightarrow> 32 word \<Rightarrow> df_locals" where
  "initial_locals env dataSize =
     \<lparr>nextUnusedButton = 0, nextUnusedAxis = 0, nextUnusedPov = 0,
      buttonUsed = replicate (NumInstancesOfType env InstanceTypeButton) False,
      axisUsed = replicate (NumInstancesOfType env InstanceTypeAxis) False,
      povUsed = replicate (NumInstancesOfType env InstanceTypePov) False,
      offsetUsed = replicate (unat dataSize) False\<rparr>"

definition SetApplicationDataFormat ::
  "mapper_env \<Rightarrow> DIDATAFORMAT \<Rightarrow> Mapper \<Rightarrow> (HRESULT \<times> Mapper) option" where
  "SetApplicationDataFormat env lpdf m =
     (let m1 = ResetApplicationDataFormat m in
        if dwDataSize lpdf mod 4 \<noteq> 0 then Some (DIERR_INVALIDPARAM, m1)
        else if kMaxDataPacketSize env < dwDataSize lpdf then Some (DIERR_INVALIDPARAM, m1)
        else
          objects_loop env (dwDataSize lpdf) (rgodf lpdf)
            (initial_locals env (dwDataSize lpdf)) (m1\<lparr>dataPacketSize := dwDataSize lpdf\<rparr>))"

subsection \<open>SetMappedProperty\<close>

text \<open>
  The properties that the source tells apart by the address of their identifier, and any
  other.
\<close>

datatype DIPROP = DIPROP_AXISMODE | DIPROP_DEADZONE | DIPROP_SATURATION | DIPROP_RANGE | DIPROP_other

text \<open>
  A property request: the header \<^verbatim>\<open>DIPROPHEADER\<close> and what follows it, the \<open>dwData\<close> of a
  \<^verbatim>\<open>DIPROPDWORD\<close> or the \<open>lMin\<close> and \<open>lMax\<close> of a \<^verbatim>\<open>DIPROPRANGE\<close>.
\<close>

record DIPROPHEADER =
  dwSize :: "32 word"
  dwHeaderSize :: "32 word"
  dwObj :: "32 word"
  dwHow :: "32 word"
  dwData :: "32 word"
  lMin :: "32 word"
  lMax :: "32 word"

definition InstanceIdentifierFromDirectInputIdentifier :: "mapper_env \<Rightarrow> 32 word \<Rightarrow> int" where
  "InstanceIdentifierFromDirectInputIdentifier env diIdentifier =
     (let idx = TInstanceIdx_cast (DIDFT_GETINSTANCE diIdentifier);
          t = (if DIDFT_GETTYPE diIdentifier = ucast DIDFT_ABSAXIS then Some InstanceTypeAxis
               else if DIDFT_GETTYPE diIdentifier = ucast DIDFT_PSHBUTTON then Some InstanceTypeButton
               else if DIDFT_GETTYPE diIdentifier = ucast DIDFT_POV then Some InstanceTypePov
               else None)
      in case t of
           None \<Rightarrow> - 1
         | Some ty \<Rightarrow>
             (if int (NumInstancesOfType env ty) \<le> idx then - 1
              else MakeInstanceIdentifier env ty idx))"

definition InstanceIdentifierFromDirectInputSpec ::
  "mapper_env \<Rightarrow> Mapper \<Rightarrow> 32 word \<Rightarrow> 32 word \<Rightarrow> int" where
  "InstanceIdentifierFromDirectInputSpec env m obj how =
     (if how = DIPH_BYOFFSET then InstanceForOffset m obj
      else if how = DIPH_BYID then InstanceIdentifierFromDirectInputIdentifier env obj
      else - 1)"

definition IsPropertyHandledByMapper :: "DIPROP \<Rightarrow> bool" where
  "IsPropertyHandledByMapper guidProperty =
     (guidProperty = DIPROP_AXISMODE \<or> guidProperty = DIPROP_DEADZONE
      \<or> guidProperty = DIPROP_RANGE \<or> guidProperty = DIPROP_SATURATION)"

text \<open>
  The loops that store a property: for every \<^verbatim>\<open>instance\<close> of the list, the entry
  \<^verbatim>\<open>axisProperties[ExtractIdentifierInstanceIndex(instance)]\<close> is replaced. A store outside
  the array has no defined result.
\<close>

fun store_axis_properties ::
  "mapper_env \<Rightarrow> (SAxisProperties \<Rightarrow> SAxisProperties) \<Rightarrow> int list \<Rightarrow> SAxisProperties list
     \<Rightarrow> SAxisProperties list option" where
  "store_axis_properties env f [] ps = Some ps"
| "store_axis_properties env f (i # rest) ps =
     (if 0 \<le> ExtractIdentifierInstanceIndex env i
         \<and> nat (ExtractIdentifierInstanceIndex env i) < length ps
      then store_axis_properties env f rest
             (ps[nat (ExtractIdentifierInstanceIndex env i) :=
                   f (ps ! nat (ExtractIdentifierInstanceIndex env i))])
      else None)"

text \<open>
  The part of \<^verbatim>\<open>SetMappedProperty\<close> after the range of instances is found: the value is
  checked, and only then is it stored for the instances from \<open>startInstance\<close> to
  \<open>endInstance\<close>.
\<close>

definition write_property ::
  "mapper_env \<Rightarrow> DIPROP \<Rightarrow> DIPROPHEADER \<Rightarrow> int \<Rightarrow> int \<Rightarrow> Mapper \<Rightarrow> (HRESULT \<times> Mapper) option" where
  "write_property env rguidProp pdiph startInstance endInstance m =
     (case axisProperties m of
        None \<Rightarrow> None
      | Some ps \<Rightarrow>
          (if rguidProp = DIPROP_DEADZONE then
             (if dwData pdiph < kMinAxisDeadzoneSaturation \<or> kMaxAxisDeadzoneSaturation < dwData pdiph
              then Some (DIERR_INVALIDPARAM, m)
              else
                (case store_axis_properties env (\<lambda>p. p\<lparr>deadzone := dwData pdiph\<rparr>)
                        [startInstance..endInstance] ps of
                   None \<Rightarrow> None
                 | Some ps' \<Rightarrow> Some (DI_OK, m\<lparr>axisProperties := Some ps'\<rparr>)))
           else if rguidProp = DIPROP_SATURATION then
             (if dwData pdiph < kMinAxisDeadzoneSaturation \<or> kMaxAxisDeadzoneSaturation < dwData pdiph
              then Some (DIERR_INVALIDPARAM, m)
              else
                (case store_axis_properties env (\<lambda>p. p\<lparr>saturation := dwData pdiph\<rparr>)
                        [startInstance..endInstance] ps of
                   None \<Rightarrow> None
                 | Some ps' \<Rightarrow> Some (DI_OK, m\<lparr>axisProperties := Some ps'\<rparr>)))
           else
             (if \<not> sint (lMin pdiph) < sint (lMax pdiph) then Some (DIERR_INVALIDPARAM, m)
              else
                (case store_axis_properties env (\<lambda>p. p\<lparr>rangeMin := lMin pdiph, rangeMax := lMax pdiph\<rparr>)
                        [startInstance..endInstance] ps of
                   None \<Rightarrow> None
                 | Some ps' \<Rightarrow> Some (DI_OK, m\<lparr>axisProperties := Some ps'\<rparr>)))))"

definition SetMappedProperty ::
  "mapper_env \<Rightarrow> DIPROP \<Rightarrow> DIPROPHEADER \<Rightarrow> Mapper \<Rightarrow> (HRESULT \<times> Mapper) option" where
  "SetMappedProperty env rguidProp pdiph m0 =
     (let m = InitializeAxisProperties env m0 in
        if \<not> IsPropertyHandledByMapper rguidProp then Some (DIERR_UNSUPPORTED, m)
        else if dwHeaderSize pdiph \<noteq> sizeof_DIPROPHEADER then Some (DIERR_INVALIDPARAM, m)
        else if dwHow pdiph = DIPH_DEVICE \<and> dwObj pdiph \<noteq> 0 then Some (DIERR_INVALIDPARAM, m)
        else if rguidProp = DIPROP_AXISMODE then
          (if dwData pdiph = DIPROPAXISMODE_ABS then Some (DI_PROPNOEFFECT, m)
           else Some (DIERR_UNSUPPORTED, m))
        else if rguidProp = DIPROP_DEADZONE \<or> rguidProp = DIPROP_SATURATION \<or> rguidProp = DIPROP_RANGE then
          (let expectedSize =
                 (if rguidProp = DIPROP_DEADZONE \<or> rguidProp = DIPROP_SATURATION
                  then sizeof_DIPROPDWORD else sizeof_DIPROPRANGE)
           in
             if dwSize pdiph \<noteq> expectedSize then Some (DIERR_INVALIDPARAM, m)
             else if dwHow pdiph = DIPH_DEVICE then
               (if int (NumInstancesOfType env InstanceTypeAxis) - 1 < 0 then Some (DIERR_OBJECTNOTFOUND, m)
                else write_property env rguidProp pdiph 0
                       (int (NumInstancesOfType env InstanceTypeAxis) - 1) m)
             else
               (let instance = InstanceIdentifierFromDirectInputSpec env m (dwObj pdiph) (dwHow pdiph)
                in
                  if instance < 0 then Some (DIERR_OBJECTNOTFOUND, m)
                  else if ExtractIdentifierInstanceType env instance \<noteq> InstanceTypeAxis
                  then Some (DIERR_UNSUPPORTED, m)
                  else write_property env rguidProp pdiph
                         (ExtractIdentifierInstanceIndex env instance)
                         (ExtractIdentifierInstanceIndex env instance) m))
        else Some (DIERR_UNSUPPORTED, m))"

subsection \<open>An example of a mapping profile\<close>

text \<open>
  A profile for the statements about concrete inputs: five axes (X, Y, Z, RotX, RotY), one
  POV and ten buttons; the two triggers share the axis Z, the left stick is on X and Y, the
  right stick on RotX and RotY. An identifier is the index plus \<open>65536\<close> times the number
  of the type (axis 0, POV 1, button 2).
\<close>

definition example_type_number :: "EInstanceType \<Rightarrow> int" where
  "example_type_number t =
     (case t of InstanceTypeAxis \<Rightarrow> 0 | InstanceTypePov \<Rightarrow> 1 | InstanceTypeButton \<Rightarrow> 2)"

definition example_identifier :: "EInstanceType \<Rightarrow> int \<Rightarrow> int" where
  "example_identifier t idx = example_type_number t * 65536 + idx"

definition example_element :: "EXInputControllerElement \<Rightarrow> int" where
  "example_element e =
     (case e of
        StickLeftHorizontal \<Rightarrow> example_identifier InstanceTypeAxis 0
      | StickLeftVertical \<Rightarrow> example_identifier InstanceTypeAxis 1
      | TriggerLT \<Rightarrow> example_identifier InstanceTypeAxis 2
      | TriggerRT \<Rightarrow> example_identifier InstanceTypeAxis 2
      | StickRightHorizontal \<Rightarrow> example_identifier InstanceTypeAxis 3
      | StickRightVertical \<Rightarrow> example_identifier InstanceTypeAxis 4
      | Dpad \<Rightarrow> example_identifier InstanceTypePov 0
      | ButtonA \<Rightarrow> example_identifier InstanceTypeButton 0
      | ButtonB \<Rightarrow> example_identifier InstanceTypeButton 1
      | ButtonX \<Rightarrow> example_identifier InstanceTypeButton 2
      | ButtonY \<Rightarrow> example_identifier InstanceTypeButton 3
      | ButtonLB \<Rightarrow> example_identifier InstanceTypeButton 4
      | ButtonRB \<Rightarrow> example_identifier InstanceTypeButton 5
      | ButtonBack \<Rightarrow> example_identifier InstanceTypeButton 6
      | ButtonStart \<Rightarrow> example_identifier InstanceTypeButton 7
      | ButtonLeftStick \<Rightarrow> example_identifier InstanceTypeButton 8
      | ButtonRightStick \<Rightarrow> example_identifier InstanceTypeButton 9)"

definition example_axis_index :: "GUID \<Rightarrow> int \<Rightarrow> int" where
  "example_axis_index g n =
     (if n = 0 then
        (case g of GUID_XAxis \<Rightarrow> 0 | GUID_YAxis \<Rightarrow> 1 | GUID_ZAxis \<Rightarrow> 2
                 | GUID_RxAxis \<Rightarrow> 3 | GUID_RyAxis \<Rightarrow> 4 | _ \<Rightarrow> - 1)
      else - 1)"

definition example_env :: mapper_env where
  "example_env =
     \<lparr>NumInstancesOfType =
        (\<lambda>t. case t of InstanceTypeAxis \<Rightarrow> 5 | InstanceTypePov \<Rightarrow> 1 | InstanceTypeButton \<Rightarrow> 10),
      AxisInstanceIndex = example_axis_index,
      MapXInputElementToDirectInputInstance = example_element,
      MakeInstanceIdentifier = example_identifier,
      ExtractIdentifierInstanceType =
        (\<lambda>i. if i div 65536 = 0 then InstanceTypeAxis
              else if i div 65536 = 1 then InstanceTypePov else InstanceTypeButton),
      ExtractIdentifierInstanceIndex = (\<lambda>i. i mod 65536),
      kMaxDataPacketSize = 1024\<rparr>"

text \<open>
  A mapper whose data format binds the axis 1 to the offset 4 of a packet of 8 bytes (the
  identifier of the axis 1 is 1).
\<close>

definition example_mapper :: Mapper where
  "example_mapper =
     \<lparr>axisProperties = None, cachedValueXInputLT = 0, cachedValueXInputRT = 0,
      dataPacketSize = 8, instanceToOffset = [1 \<mapsto> 4], mapsValid = True,
      offsetToInstance = [4 \<mapsto> 1],
      axisOffsetsUnused = {}, buttonOffsetsUnused = {}, povOffsetsUnused = {}\<rparr>"

text \<open>
  The same mapper with a table of axis properties that differs from the default one in
  three of its five entries.
\<close>

definition example_configured_mapper :: Mapper where
  "example_configured_mapper =
     example_mapper\<lparr>axisProperties := Some
       [\<lparr>rangeMin = - 100, rangeMax = 100, deadzone = 500, saturation = 9000\<rparr>,
        \<lparr>rangeMin = 0, rangeMax = 255, deadzone = 100, saturation = 9500\<rparr>,
        \<lparr>rangeMin = - 32768, rangeMax = 32767, deadzone = 0, saturation = 10000\<rparr>,
        \<lparr>rangeMin = - 5, rangeMax = 5, deadzone = 2000, saturation = 8000\<rparr>,
        \<lparr>rangeMin = - 32768, rangeMax = 32767, deadzone = 0, saturation = 10000\<rparr>]\<rparr>"

text \<open>
  A data format of two axes (any instance, no type) that claim the bytes \<open>[0..4)\<close> and
  \<open>[2..6)\<close> of a packet of 8 bytes.
\<close>

definition example_overlap_format :: DIDATAFORMAT where
  "example_overlap_format =
     \<lparr>dwDataSize = 8,
      rgodf = [\<lparr>pguid = None, dwOfs = 0, dwType = 0x00FFFF02, dwFlags = 0\<rparr>,
               \<lparr>pguid = None, dwOfs = 2, dwType = 0x00FFFF02, dwFlags = 0\<rparr>]\<rparr>"

text \<open>
  Two property requests for the whole device: a deadzone of 20000, and the range
  \<open>[-1000, 1000]\<close>.
\<close>

definition example_deadzone_request :: DIPROPHEADER where
  "example_deadzone_request =
     \<lparr>dwSize = 20, dwHeaderSize = 16, dwObj = 0, dwHow = 0, dwData = 20000, lMin = 0, lMax = 0\<rparr>"

definition example_range_request :: DIPROPHEADER where
  "example_range_request =
     \<lparr>dwSize = 24, dwHeaderSize = 16, dwObj = 0, dwHow = 0, dwData = 0, lMin = - 1000, lMax = 1000\<rparr>"

subsection \<open>Double-precision numbers\<close>

text \<open>
  \<^verbatim>\<open>ApplyAxisPropertiesToRawValue\<close> and \<^verbatim>\<open>Mapper::MapValueInRangeToRange\<close> compute with
  \<^verbatim>\<open>double\<close>. A finite double is a number \<open>m * 2 ^ e\<close> with integers \<open>m\<close> and \<open>e\<close>, written
  \<open>Dbl m e\<close>. An arithmetic operation of the source gives the exact result rounded to the
  nearest number whose significand has 53 bits, a tie to the even significand (IEEE 754
  binary64, the default rounding). The range of the exponent is not modelled; no result
  below is near overflow or underflow. A division by zero has no finite result: \<open>None\<close>.
\<close>

datatype double = Dbl int int

text \<open>The number of bits of a positive integer.\<close>

function bit_length :: "int \<Rightarrow> nat" where
  "bit_length n = (if n \<le> 0 then 0 else Suc (bit_length (n div 2)))"
  by pat_completeness auto
termination
  by (relation "measure nat") auto

declare bit_length.simps [simp del]

text \<open>\<open>m / 2 ^ k\<close> for \<open>m\<close> not negative, rounded to the nearest integer, a tie to the even one.\<close>

definition round_half_even :: "int \<Rightarrow> nat \<Rightarrow> int" where
  "round_half_even m k =
     (let q = m div 2 ^ k; r = m mod 2 ^ k
      in if 2 ^ k < 2 * r \<or> (2 * r = 2 ^ k \<and> odd q) then q + 1 else q)"

definition round53 :: "double \<Rightarrow> double" where
  "round53 d =
     (case d of Dbl m e \<Rightarrow>
        (let n = bit_length \<bar>m\<bar>
         in if n \<le> 53 then Dbl m e
            else Dbl (sgn m * round_half_even \<bar>m\<bar> (n - 53)) (e + int (n - 53))))"

definition double_of_int :: "int \<Rightarrow> double" where
  "double_of_int i = round53 (Dbl i 0)"

definition double_add :: "double \<Rightarrow> double \<Rightarrow> double" where
  "double_add x y =
     (case x of Dbl m1 e1 \<Rightarrow> case y of Dbl m2 e2 \<Rightarrow>
        round53 (Dbl (m1 * 2 ^ nat (e1 - min e1 e2) + m2 * 2 ^ nat (e2 - min e1 e2)) (min e1 e2)))"

definition double_sub :: "double \<Rightarrow> double \<Rightarrow> double" where
  "double_sub x y =
     (case x of Dbl m1 e1 \<Rightarrow> case y of Dbl m2 e2 \<Rightarrow>
        round53 (Dbl (m1 * 2 ^ nat (e1 - min e1 e2) - m2 * 2 ^ nat (e2 - min e1 e2)) (min e1 e2)))"

definition double_mul :: "double \<Rightarrow> double \<Rightarrow> double" where
  "double_mul x y =
     (case x of Dbl m1 e1 \<Rightarrow> case y of Dbl m2 e2 \<Rightarrow> round53 (Dbl (m1 * m2) (e1 + e2)))"

text \<open>
  The quotient: the significand of the dividend is shifted left by \<open>s\<close> bits, so that the
  integer quotient \<open>q\<close> has more than 55 bits; a last bit is appended that tells whether the
  division left a remainder, and the number is rounded to 53 bits.
\<close>

definition double_div :: "double \<Rightarrow> double \<Rightarrow> double option" where
  "double_div x y =
     (case x of Dbl m1 e1 \<Rightarrow> case y of Dbl m2 e2 \<Rightarrow>
        if m2 = 0 then None
        else
          (let s = 55 + bit_length \<bar>m2\<bar>;
               q = (\<bar>m1\<bar> * 2 ^ s) div \<bar>m2\<bar>;
               r = (\<bar>m1\<bar> * 2 ^ s) mod \<bar>m2\<bar>
           in Some (round53 (Dbl (sgn m1 * sgn m2 * (2 * q + (if r = 0 then 0 else 1)))
                              (e1 - e2 - int s - 1)))))"

definition double_abs :: "double \<Rightarrow> double" where
  "double_abs x = (case x of Dbl m e \<Rightarrow> Dbl \<bar>m\<bar> e)"

definition double_positive :: "double \<Rightarrow> bool" where
  "double_positive x = (case x of Dbl m e \<Rightarrow> 0 < m)"

text \<open>The conversion of a double to an integer truncates toward zero.\<close>

definition double_truncate :: "double \<Rightarrow> int" where
  "double_truncate x =
     (case x of Dbl m e \<Rightarrow>
        if 0 \<le> e then m * 2 ^ nat e else sgn m * (\<bar>m\<bar> div 2 ^ nat (- e)))"

text \<open>
  The casts \<^verbatim>\<open>(LONG)\<close> and \<^verbatim>\<open>(DWORD)\<close> of a double: undefined in C++ when the truncated
  value is not a value of the type.
\<close>

definition LONG_of_double :: "double \<Rightarrow> 32 word option" where
  "LONG_of_double x =
     (if - (2 ^ 31) \<le> double_truncate x \<and> double_truncate x < 2 ^ 31
      then Some (word_of_int (double_truncate x)) else None)"

definition DWORD_of_double :: "double \<Rightarrow> 32 word option" where
  "DWORD_of_double x =
     (if 0 \<le> double_truncate x \<and> double_truncate x < 2 ^ 32
      then Some (word_of_int (double_truncate x)) else None)"

subsection \<open>The axis values of the mapper\<close>

text \<open>\<^verbatim>\<open>Mapper::MapValueInRangeToRange\<close>: the differences are \<^verbatim>\<open>LONG\<close>s, the rest is doubles.\<close>

definition Mapper_MapValueInRangeToRange ::
  "32 word \<Rightarrow> 32 word \<Rightarrow> 32 word \<Rightarrow> 32 word \<Rightarrow> 32 word \<Rightarrow> 32 word option" where
  "Mapper_MapValueInRangeToRange originalValue originalMin originalMax newMin newMax =
     (case double_div (double_of_int (sint (originalValue - originalMin)))
             (double_of_int (sint (originalMax - originalMin))) of
        None \<Rightarrow> None
      | Some originalFraction \<Rightarrow>
          (case LONG_of_double
                  (double_mul originalFraction (double_of_int (sint (newMax - newMin)))) of
             None \<Rightarrow> None
           | Some scaled \<Rightarrow> Some (scaled + newMin)))"

text \<open>
  \<^verbatim>\<open>ApplyAxisPropertiesToRawValue\<close>, first for the properties of the axis, then with the
  read of \<^verbatim>\<open>axisProperties[axisIndex]\<close>, which has no defined result outside the array.
\<close>

definition apply_axis_properties :: "SAxisProperties \<Rightarrow> 32 word \<Rightarrow> 32 word option" where
  "apply_axis_properties p val =
     (case double_div (double_of_int (sint (rangeMax p + rangeMin p))) (double_of_int 2) of
        None \<Rightarrow> None
      | Some axisCenterPosition \<Rightarrow>
          (let axisPhysicalRange = double_sub (double_of_int (sint (rangeMax p))) axisCenterPosition;
               axisValueDisp = double_sub (double_of_int (sint val)) axisCenterPosition;
               axisValueDispAbs = double_abs axisValueDisp
           in case double_div axisValueDispAbs axisPhysicalRange of
                None \<Rightarrow> None
              | Some ratio \<Rightarrow>
                  (case DWORD_of_double (double_mul ratio (double_of_int 10000)) of
                     None \<Rightarrow> None
                   | Some pct0 \<Rightarrow>
                       (case (if pct0 \<le> deadzone p then Some 0
                              else if saturation p \<le> pct0 then Some 10000
                              else Mapper_MapValueInRangeToRange pct0 (deadzone p) (saturation p) 0 10000) of
                          None \<Rightarrow> None
                        | Some axisValuePctRange \<Rightarrow>
                            (case double_div (double_of_int (uint axisValuePctRange)) (double_of_int 10000) of
                               None \<Rightarrow> None
                             | Some fraction \<Rightarrow>
                                 (if double_positive axisValueDisp then
                                    LONG_of_double (double_add axisCenterPosition
                                      (double_mul axisPhysicalRange fraction))
                                  else
                                    LONG_of_double (double_sub axisCenterPosition
                                      (double_mul axisPhysicalRange fraction))))))))"

definition axis_properties_of :: "mapper_env \<Rightarrow> Mapper \<Rightarrow> int \<Rightarrow> SAxisProperties option" where
  "axis_properties_of env m axisInstance =
     (case axisProperties m of
        None \<Rightarrow> None
      | Some ps \<Rightarrow>
          (if 0 \<le> ExtractIdentifierInstanceIndex env axisInstance
              \<and> nat (ExtractIdentifierInstanceIndex env axisInstance) < length ps
           then Some (ps ! nat (ExtractIdentifierInstanceIndex env axisInstance)) else None))"

definition ApplyAxisPropertiesToRawValue :: "mapper_env \<Rightarrow> Mapper \<Rightarrow> int \<Rightarrow> 32 word \<Rightarrow> 32 word option" where
  "ApplyAxisPropertiesToRawValue env m axisInstance val =
     (case axis_properties_of env m axisInstance of
        None \<Rightarrow> None
      | Some p \<Rightarrow> apply_axis_properties p val)"

text \<open>\<^verbatim>\<open>InvertAxisValue\<close>: \<^verbatim>\<open>LONG\<close> arithmetic, the division by 2 truncating.\<close>

definition InvertAxisValue :: "32 word \<Rightarrow> 32 word \<Rightarrow> 32 word \<Rightarrow> 32 word" where
  "InvertAxisValue originalValue rangeMinimum rangeMaximum =
     (let rangeCenter = sdiv32 (rangeMaximum + rangeMinimum) 2
      in rangeCenter + (rangeCenter - originalValue))"

definition XInputTriggerSharedAxisDirection :: "EXInputControllerElement \<Rightarrow> 32 word" where
  "XInputTriggerSharedAxisDirection trigger = (if trigger = TriggerLT then 1 else - 1)"

subsection \<open>WriteApplicationControllerState\<close>

text \<open>
  The application's buffer, after \<^verbatim>\<open>ZeroMemory\<close> and the writes: for the offset of a write,
  the \<^verbatim>\<open>LONG\<close> or the \<^verbatim>\<open>BYTE\<close> written there last. (How the bytes of a \<^verbatim>\<open>LONG\<close> lie in
  the buffer is not modelled.)
\<close>

datatype buffer_value = LongValue "32 word" | ByteValue "8 word"

text \<open>
  What the blocks of \<^verbatim>\<open>WriteApplicationControllerState\<close> change: the mapper (its cached
  trigger values), the set \<^verbatim>\<open>mappedInstances\<close>, and the buffer.
\<close>

record writer_state =
  mapper :: Mapper
  mappedInstances :: "int set"
  appData :: "32 word \<rightharpoonup> buffer_value"

text \<open>
  A block either returns from the function with a result code, or it continues with the
  next block; \<open>None\<close> when it has no defined result.
\<close>

datatype 'a block_result = Returns HRESULT | Continues 'a

definition WriteAxisValueToApplicationDataStructure ::
  "mapper_env \<Rightarrow> int \<Rightarrow> 32 word \<Rightarrow> writer_state \<Rightarrow> writer_state option" where
  "WriteAxisValueToApplicationDataStructure env axisInstance val w =
     (case instanceToOffset (mapper w) axisInstance of
        None \<Rightarrow> Some w
      | Some offset \<Rightarrow>
          (case ApplyAxisPropertiesToRawValue env (mapper w) axisInstance val of
             None \<Rightarrow> None
           | Some v \<Rightarrow> Some (w\<lparr>appData := (appData w)(offset \<mapsto> LongValue v)\<rparr>)))"

definition WriteButtonValueToApplicationDataStructure ::
  "int \<Rightarrow> 8 word \<Rightarrow> writer_state \<Rightarrow> writer_state" where
  "WriteButtonValueToApplicationDataStructure buttonInstance val w =
     (case instanceToOffset (mapper w) buttonInstance of
        None \<Rightarrow> w
      | Some offset \<Rightarrow>
          w\<lparr>appData := (appData w)(offset \<mapsto> ByteValue (if val \<noteq> 0 then 0x80 else 0x00))\<rparr>)"

text \<open>
  The start of the function: the lazy initialisation, the check of the buffer's size, the
  empty set and the zeroed buffer.
\<close>

definition WriteApplicationControllerState_start ::
  "mapper_env \<Rightarrow> 32 word \<Rightarrow> Mapper \<Rightarrow> writer_state block_result" where
  "WriteApplicationControllerState_start env appDataSize m =
     (if appDataSize < dataPacketSize (InitializeAxisProperties env m) then Returns DIERR_INVALIDPARAM
      else Continues \<lparr>mapper = InitializeAxisProperties env m, mappedInstances = {},
                       appData = Map.empty\<rparr>)"

text \<open>
  A trigger that has an instance of its own: an axis, mapped from the trigger's range to
  the axis range, or a button, pressed above the threshold.
\<close>

definition write_separate_trigger ::
  "mapper_env \<Rightarrow> int \<Rightarrow> 8 word \<Rightarrow> writer_state \<Rightarrow> writer_state block_result option" where
  "write_separate_trigger env triggerInstance raw w =
     (if 0 \<le> triggerInstance then
        (if ExtractIdentifierInstanceType env triggerInstance = InstanceTypeAxis then
           (if int (NumInstancesOfType env InstanceTypeAxis)
                 \<le> ExtractIdentifierInstanceIndex env triggerInstance
            then Some (Returns DIERR_GENERIC)
            else
              (case axis_properties_of env (mapper w) triggerInstance of
                 None \<Rightarrow> None
               | Some p \<Rightarrow>
                   (case Mapper_MapValueInRangeToRange (ucast raw) kTriggerRangeMin kTriggerRangeMax
                           (rangeMin p) (rangeMax p) of
                      None \<Rightarrow> None
                    | Some triggerAxisValue \<Rightarrow>
                        map_option Continues
                          (WriteAxisValueToApplicationDataStructure env triggerInstance triggerAxisValue
                             (w\<lparr>mappedInstances := insert triggerInstance (mappedInstances w)\<rparr>)))))
         else if ExtractIdentifierInstanceType env triggerInstance = InstanceTypeButton then
           (if int (NumInstancesOfType env InstanceTypeButton)
                 \<le> ExtractIdentifierInstanceIndex env triggerInstance
            then Some (Returns DIERR_GENERIC)
            else
              Some (Continues
                (WriteButtonValueToApplicationDataStructure triggerInstance
                   (if XINPUT_GAMEPAD_TRIGGER_THRESHOLD < raw then 1 else 0)
                   (w\<lparr>mappedInstances := insert triggerInstance (mappedInstances w)\<rparr>))))
         else Some (Returns DIERR_GENERIC))
      else Some (Continues w))"

text \<open>
  The block of the triggers. When both triggers have the same instance, the value of the
  shared axis is \<^verbatim>\<open>m * LT + m * -1 * RT\<close> in \<^verbatim>\<open>LONG\<close> arithmetic, with \<open>m\<close> the sign of
  \<^verbatim>\<open>XInputTriggerSharedAxisDirection(TriggerLT)\<close>, mapped from \<open>[-kTriggerRangeMax,
  kTriggerRangeMax]\<close> to the range of the axis.
\<close>

definition WriteApplicationControllerState_triggers ::
  "mapper_env \<Rightarrow> XINPUT_GAMEPAD \<Rightarrow> writer_state \<Rightarrow> writer_state block_result option" where
  "WriteApplicationControllerState_triggers env xState w0 =
     (let instanceLT = MapXInputElementToDirectInputInstance env TriggerLT;
          instanceRT = MapXInputElementToDirectInputInstance env TriggerRT;
          w = w0\<lparr>mapper := (mapper w0)\<lparr>cachedValueXInputLT := ucast (bLeftTrigger xState),
                                          cachedValueXInputRT := ucast (bRightTrigger xState)\<rparr>\<rparr>
      in
        if 0 \<le> instanceLT \<and> 0 \<le> instanceRT \<and> instanceLT = instanceRT then
          (if ExtractIdentifierInstanceType env instanceLT \<noteq> InstanceTypeAxis
           then Some (Returns DIERR_GENERIC)
           else if int (NumInstancesOfType env InstanceTypeAxis)
                     \<le> ExtractIdentifierInstanceIndex env instanceLT
           then Some (Returns DIERR_GENERIC)
           else if XInputTriggerSharedAxisDirection TriggerLT = 0 then Some (Returns DIERR_GENERIC)
           else
             (let leftTriggerMultiplier =
                    (if sint (XInputTriggerSharedAxisDirection TriggerLT) < 0 then - 1 else 1 :: 32 word);
                  triggerSharedAxisValue =
                    leftTriggerMultiplier * ucast (bLeftTrigger xState)
                      + leftTriggerMultiplier * (- 1) * ucast (bRightTrigger xState)
              in case axis_properties_of env (mapper w) instanceLT of
                   None \<Rightarrow> None
                 | Some p \<Rightarrow>
                     (case Mapper_MapValueInRangeToRange triggerSharedAxisValue
                             (kTriggerRangeMax * (- 1)) kTriggerRangeMax (rangeMin p) (rangeMax p) of
                        None \<Rightarrow> None
                      | Some mapped \<Rightarrow>
                          map_option Continues
                            (WriteAxisValueToApplicationDataStructure env instanceLT mapped
                               (w\<lparr>mappedInstances := insert instanceLT (mappedInstances w)\<rparr>)))))
        else
          (case write_separate_trigger env instanceLT (bLeftTrigger xState) w of
             None \<Rightarrow> None
           | Some (Returns r) \<Rightarrow> Some (Returns r)
           | Some (Continues w1) \<Rightarrow> write_separate_trigger env instanceRT (bRightTrigger xState) w1))"

text \<open>
  The block of one stick axis. The source has it four times, for the element, its raw value
  and with or without the inversion: the vertical axes are inverted in the range of the
  stick before they are mapped to the range of the axis.
\<close>

definition write_stick_axis ::
  "mapper_env \<Rightarrow> EXInputControllerElement \<Rightarrow> 16 word \<Rightarrow> bool \<Rightarrow> writer_state
     \<Rightarrow> writer_state block_result option" where
  "write_stick_axis env element raw vertical w =
     (let instanceAxis = MapXInputElementToDirectInputInstance env element in
        if 0 \<le> instanceAxis then
          (if ExtractIdentifierInstanceType env instanceAxis \<noteq> InstanceTypeAxis
           then Some (Returns DIERR_GENERIC)
           else if int (NumInstancesOfType env InstanceTypeAxis)
                     \<le> ExtractIdentifierInstanceIndex env instanceAxis
           then Some (Returns DIERR_GENERIC)
           else if instanceAxis \<in> mappedInstances w then Some (Returns DIERR_GENERIC)
           else
             (case axis_properties_of env (mapper w) instanceAxis of
                None \<Rightarrow> None
              | Some p \<Rightarrow>
                  (case Mapper_MapValueInRangeToRange
                          (if vertical then InvertAxisValue (scast raw) kStickRangeMin kStickRangeMax
                           else scast raw)
                          kStickRangeMin kStickRangeMax (rangeMin p) (rangeMax p) of
                     None \<Rightarrow> None
                   | Some axisValue \<Rightarrow>
                       map_option Continues
                         (WriteAxisValueToApplicationDataStructure env instanceAxis axisValue
                            (w\<lparr>mappedInstances := insert instanceAxis (mappedInstances w)\<rparr>)))))
        else Some (Continues w))"

text \<open>The block of the sticks: left horizontal, left vertical, right horizontal, right vertical.\<close>

definition WriteApplicationControllerState_sticks ::
  "mapper_env \<Rightarrow> XINPUT_GAMEPAD \<Rightarrow> writer_state \<Rightarrow> writer_state block_result option" where
  "WriteApplicationControllerState_sticks env xState w =
     (case write_stick_axis env StickLeftHorizontal (sThumbLX xState) False w of
        None \<Rightarrow> None
      | Some (Returns r) \<Rightarrow> Some (Returns r)
      | Some (Continues w1) \<Rightarrow>
          (case write_stick_axis env StickLeftVertical (sThumbLY xState) True w1 of
             None \<Rightarrow> None
           | Some (Returns r) \<Rightarrow> Some (Returns r)
           | Some (Continues w2) \<Rightarrow>
               (case write_stick_axis env StickRightHorizontal (sThumbRX xState) False w2 of
                  None \<Rightarrow> None
                | Some (Returns r) \<Rightarrow> Some (Returns r)
                | Some (Continues w3) \<Rightarrow>
                    write_stick_axis env StickRightVertical (sThumbRY xState) True w3)))"

text \<open>
  What a block has written at an offset of the buffer, when it continues: the value that
  the statements about the blocks read.
\<close>

definition written_value :: "writer_state block_result option \<Rightarrow> 32 word \<Rightarrow> buffer_value option" where
  "written_value r offset =
     (case r of
        None \<Rightarrow> None
      | Some (Returns h) \<Rightarrow> None
      | Some (Continues w) \<Rightarrow> appData w offset)"

text \<open>
  The properties of an axis by default, and a state of the writer for the example profile:
  every axis has the default properties; the axes X, Y and Z (the identifiers 0, 1 and 2)
  are bound to the offsets 0, 4 and 8; nothing is written yet.
\<close>

definition default_axis_properties :: SAxisProperties where
  "default_axis_properties =
     \<lparr>rangeMin = kDefaultAxisRangeMin, rangeMax = kDefaultAxisRangeMax,
      deadzone = kDefaultAxisDeadzone, saturation = kDefaultAxisSaturation\<rparr>"

definition example_writer_state :: writer_state where
  "example_writer_state =
     \<lparr>mapper =
        \<lparr>axisProperties = Some (replicate 5 default_axis_properties),
         cachedValueXInputLT = 0, cachedValueXInputRT = 0, dataPacketSize = 12,
         instanceToOffset = [0 \<mapsto> 0, 1 \<mapsto> 4, 2 \<mapsto> 8], mapsValid = True,
         offsetToInstance = [0 \<mapsto> 0, 4 \<mapsto> 1, 8 \<mapsto> 2],
         axisOffsetsUnused = {}, buttonOffsetsUnused = {}, povOffsetsUnused = {}\<rparr>,
      mappedInstances = {}, appData = Map.empty\<rparr>"

definition example_gamepad :: "8 word \<Rightarrow> 8 word \<Rightarrow> 16 word \<Rightarrow> XINPUT_GAMEPAD" where
  "example_gamepad lt rt ly =
     \<lparr>wButtons = 0, bLeftTrigger = lt, bRightTrigger = rt,
      sThumbLX = 0, sThumbLY = ly, sThumbRX = 0, sThumbRY = 0\<rparr>"

text \<open>A state of the gamepad with the left stick at \<open>(lx, ly)\<close> and everything else at rest.\<close>

definition example_sticks :: "16 word \<Rightarrow> 16 word \<Rightarrow> XINPUT_GAMEPAD" where
  "example_sticks lx ly =
     \<lparr>wButtons = 0, bLeftTrigger = 0, bRightTrigger = 0,
      sThumbLX = lx, sThumbLY = ly, sThumbRX = 0, sThumbRY = 0\<rparr>"


chapter \<open>Properties\<close>

section \<open>The offsets of a data format\<close>

lemma CheckAndSetOffsets_check_eq:
  "at + n \<le> length arr \<Longrightarrow>
   CheckAndSetOffsets_check arr at n = Some (\<forall>i<n. \<not> arr ! (at + i))"
proof (induction n arbitrary: at)
  case 0
  then show ?case by simp
next
  case (Suc n)
  have "(\<forall>i<Suc n. \<not> arr ! (at + i)) = (\<not> arr ! at \<and> (\<forall>i<n. \<not> arr ! (Suc at + i)))"
    by (auto simp: less_Suc_eq_0_disj)
  with Suc show ?case by simp
qed

lemma CheckAndSetOffsets_set_eq:
  "at + n \<le> length arr \<Longrightarrow>
   \<exists>arr'. CheckAndSetOffsets_set arr at n = Some arr' \<and> length arr' = length arr
     \<and> (\<forall>j<length arr. arr' ! j = (if at \<le> j \<and> j < at + n then True else arr ! j))"
proof (induction n arbitrary: at arr)
  case 0
  then show ?case by auto
next
  case (Suc n)
  from Suc.prems have "Suc at + n \<le> length (arr[at := True])" by simp
  from Suc.IH [OF this] obtain arr' where
    a: "CheckAndSetOffsets_set (arr[at := True]) (Suc at) n = Some arr'"
    and b: "length arr' = length arr"
    and c: "\<forall>j<length arr. arr' ! j = (if Suc at \<le> j \<and> j < Suc at + n then True else (arr[at := True]) ! j)"
    by auto
  have "\<forall>j<length arr. arr' ! j = (if at \<le> j \<and> j < at + Suc n then True else arr ! j)"
    using c Suc.prems by (auto simp: nth_list_update)
  with a b Suc.prems show ?case by simp
qed

text \<open>
  C9. \<^verbatim>\<open>CheckAndSetOffsets\<close> is all-or-nothing on a segment \<open>arr[at..at+count)\<close> of the array:
  if some entry of the segment is already set, it returns \<^verbatim>\<open>FALSE\<close> and the array is as it
  was; if none is, it returns \<^verbatim>\<open>TRUE\<close> and exactly the entries of the segment are set. So a
  failed overlap check claims no byte.
\<close>

theorem CheckAndSetOffsets_all_or_nothing:
  assumes "at + count \<le> length arr"
  shows "((\<exists>i<count. arr ! (at + i)) \<longrightarrow> CheckAndSetOffsets arr at count = Some (False, arr))
       \<and> ((\<forall>i<count. \<not> arr ! (at + i)) \<longrightarrow>
            (\<exists>arr'. CheckAndSetOffsets arr at count = Some (True, arr')
               \<and> length arr' = length arr
               \<and> (\<forall>j<length arr. arr' ! j = (if at \<le> j \<and> j < at + count then True else arr ! j))))"
proof (intro conjI impI)
  assume "\<exists>i<count. arr ! (at + i)"
  then have "CheckAndSetOffsets_check arr at count = Some False"
    using CheckAndSetOffsets_check_eq [OF assms] by simp
  then show "CheckAndSetOffsets arr at count = Some (False, arr)"
    by (simp add: CheckAndSetOffsets_def)
next
  assume "\<forall>i<count. \<not> arr ! (at + i)"
  then have "CheckAndSetOffsets_check arr at count = Some True"
    using CheckAndSetOffsets_check_eq [OF assms] by simp
  then show "\<exists>arr'. CheckAndSetOffsets arr at count = Some (True, arr')
               \<and> length arr' = length arr
               \<and> (\<forall>j<length arr. arr' ! j = (if at \<le> j \<and> j < at + count then True else arr ! j))"
    using CheckAndSetOffsets_set_eq [OF assms] by (auto simp: CheckAndSetOffsets_def)
qed

theorem CheckAndSetOffsets_all_or_nothing_witness:
  "CheckAndSetOffsets [False, False, True, False, False, False, False, False] 0 4
      = Some (False, [False, False, True, False, False, False, False, False])
   \<and> (\<exists>arr'. CheckAndSetOffsets [False, False, True, False, False, False, False, False] 4 4 = Some (True, arr')
        \<and> arr' = [False, False, True, False, True, True, True, True])"
proof -
  let ?arr = "[False, False, True, False, False, False, False, False]"
  have a: "0 + 4 \<le> length ?arr" by simp
  have b: "4 + 4 \<le> length ?arr" by simp
  have "\<exists>i<4. ?arr ! (0 + i)" by (rule exI [of _ 2]) simp
  with CheckAndSetOffsets_all_or_nothing [OF a]
  have 1: "CheckAndSetOffsets ?arr 0 4 = Some (False, ?arr)" by blast
  have "\<forall>i<4. \<not> ?arr ! (4 + i)" by (auto simp: less_Suc_eq numeral_nat nth_Cons')
  with CheckAndSetOffsets_all_or_nothing [OF b] obtain arr' where
    2: "CheckAndSetOffsets ?arr 4 4 = Some (True, arr')" and l: "length arr' = length ?arr"
    and c: "\<forall>j<length ?arr. arr' ! j = (if 4 \<le> j \<and> j < 4 + 4 then True else ?arr ! j)"
    by blast
  have "arr' = [False, False, True, False, True, True, True, True]"
    using l c by (auto simp: list_eq_iff_nth_eq less_Suc_eq numeral_nat nth_Cons')
  with 1 2 show ?thesis by simp
qed

section \<open>The virtual controller\<close>

text \<open>The origin of the old range is mapped to the origin of the new range, whatever the ranges.\<close>

lemma MapValueInRangeToRange_origin:
  "MapValueInRangeToRange a0 a0 a1 b0 b1 = b0"
  by (simp add: MapValueInRangeToRange_def sdiv32_def)

text \<open>
  \<^verbatim>\<open>TransformAxisValue\<close> returns the ends of the range itself, at the saturation cutoffs and
  beyond; \<^verbatim>\<open>MapValueInRangeToRange\<close> is called for the raw values strictly between a
  deadzone cutoff and a saturation cutoff only. What a step of \<^verbatim>\<open>ApplyProperties\<close> and a
  refresh with a new packet of a connected controller leave in the state:
\<close>

lemma ApplyProperties_step_axis:
  "axis (ApplyProperties_step props x s) a =
     (if a = x then TransformAxisValue (axis s x) (props x) else axis s a)"
  by (simp add: ApplyProperties_step_def)

lemma RefreshState_new_packet:
  assumes "fst x = ERROR_SUCCESS" "errorCode (stateIdentifier vc) = ERROR_SUCCESS"
    and "dwPacketNumber (snd x) \<noteq> packetNumber (stateIdentifier vc)"
  shows "state (snd (RefreshState env x vc))
           = ApplyProperties env vc (MapXInputState env (Gamepad (snd x)))"
  using assms by (auto simp: RefreshState_def Let_def ApplyProperties_def)

lemma GetState_new_packet:
  assumes "stateRefreshNeeded vc" "fst x = ERROR_SUCCESS"
    "errorCode (stateIdentifier vc) = ERROR_SUCCESS"
    "dwPacketNumber (snd x) \<noteq> packetNumber (stateIdentifier vc)"
  shows "fst (GetState env x vc) = ApplyProperties env vc (MapXInputState env (Gamepad (snd x)))"
  using assms RefreshState_new_packet [of x "vc\<lparr>lockTrace := Acquire # lockTrace vc\<rparr>" env]
  by (simp add: GetState_def Let_def ApplyProperties_def)

lemma example_wide_properties:
  "properties example_wide_vc a =
     (if a = AxisX then
        \<lparr>deadzoneRawCutoffPositive = 0, deadzoneRawCutoffNegative = 0,
         saturationRawCutoffPositive = 32767, saturationRawCutoffNegative = - 32768,
         vc_rangeMin = - 1000000, vc_rangeNeutral = 0, vc_rangeMax = 1000000\<rparr>
      else example_vc_properties)"
  by (simp add: example_wide_vc_def SetAxisRange_def example_vc_env_def example_vc_def
      example_vc_properties_def sdiv32_def signed_divide_int_def)

lemma example_wide_vc_fields:
  "stateRefreshNeeded example_wide_vc"
  "stateIdentifier example_wide_vc = \<lparr>packetNumber = 7, errorCode = ERROR_SUCCESS\<rparr>"
  by (simp_all add: example_wide_vc_def SetAxisRange_def example_vc_def)

lemma wide_remap_value: "sint (MapValueInRangeToRange 32766 0 32767 0 1000000) = - 48638"
  by (simp add: MapValueInRangeToRange_def sdiv32_def signed_divide_int_def)

text \<open>
  C5. The product of the remap is computed in 32 bits, there is no 64-bit accumulator.
  After \<^verbatim>\<open>SetAxisRange(AxisX, -1000000, 1000000)\<close>, with the cutoffs 0 and 32767 of no
  deadzone and full saturation, the raw value 32766 lies strictly between the cutoffs and
  \<^verbatim>\<open>TransformAxisValue\<close> passes it to \<^verbatim>\<open>MapValueInRangeToRange\<close>. The product
  \<open>32766 * 1000000\<close> is not a 32-bit value: it wraps, and the result is \<open>-48638\<close>, where the
  remap with a 64-bit accumulator gives \<open>999969\<close>. \<^verbatim>\<open>GetState\<close> reports \<open>-48638\<close> for the
  axis X when the stick is at 32766.
\<close>

theorem MapValueInRangeToRange_product_wraps:
  "properties example_wide_vc AxisX =
     \<lparr>deadzoneRawCutoffPositive = 0, deadzoneRawCutoffNegative = 0,
      saturationRawCutoffPositive = 32767, saturationRawCutoffNegative = - 32768,
      vc_rangeMin = - 1000000, vc_rangeNeutral = 0, vc_rangeMax = 1000000\<rparr>
   \<and> TransformAxisValue 32766 (properties example_wide_vc AxisX)
       = MapValueInRangeToRange 32766 0 32767 0 1000000
   \<and> sint (MapValueInRangeToRange 32766 0 32767 0 1000000) = - 48638
   \<and> sint (remap 32766 0 32767 0 1000000) = 999969
   \<and> (2 :: int) ^ 31 \<le> sint (32766 - 0 :: 32 word) * sint (1000000 - 0 :: 32 word)
   \<and> sint (axis (fst (GetState example_vc_env (ERROR_SUCCESS, example_right_state) example_wide_vc))
        AxisX) = - 48638"
proof -
  have 1: "TransformAxisValue 32766 (properties example_wide_vc AxisX)
       = MapValueInRangeToRange 32766 0 32767 0 1000000"
    by (simp add: example_wide_properties TransformAxisValue_def kAnalogValueNeutral_def)
  have 2: "sint (remap 32766 0 32767 0 1000000) = 999969"
    by (simp add: remap_def signed_divide_int_def)
  have 3: "(2 :: int) ^ 31 \<le> sint (32766 - 0 :: 32 word) * sint (1000000 - 0 :: 32 word)"
    by simp
  have "fst (GetState example_vc_env (ERROR_SUCCESS, example_right_state) example_wide_vc)
      = ApplyProperties example_vc_env example_wide_vc
          (MapXInputState example_vc_env (Gamepad (snd (ERROR_SUCCESS, example_right_state))))"
    by (rule GetState_new_packet) (simp_all add: example_wide_vc_fields example_right_state_def)
  then have 4: "axis (fst (GetState example_vc_env (ERROR_SUCCESS, example_right_state) example_wide_vc))
        AxisX = TransformAxisValue 32766 (properties example_wide_vc AxisX)"
    by (simp add: ApplyProperties_def example_vc_env_def ApplyProperties_step_axis
        example_right_state_def example_neutral_state_def)
  from 1 2 3 4 wide_remap_value example_wide_properties [of AxisX] show ?thesis by simp
qed
















text \<open>
  C1. When exactly one of the stored and the new error code is \<^verbatim>\<open>ERROR_SUCCESS\<close>,
  \<^verbatim>\<open>RefreshState\<close> returns \<^verbatim>\<open>false\<close> and leaves the state and the state identifier as they
  were, whatever the packet numbers are: the transition is not treated as a change.
\<close>

theorem RefreshState_transition_is_no_change:
  assumes "(fst x = ERROR_SUCCESS) \<noteq> (errorCode (stateIdentifier vc) = ERROR_SUCCESS)"
  shows "fst (RefreshState env x vc) = False
       \<and> state (snd (RefreshState env x vc)) = state vc
       \<and> stateIdentifier (snd (RefreshState env x vc)) = stateIdentifier vc"
  using assms by (auto simp: RefreshState_def Let_def)

theorem RefreshState_transition_is_no_change_witness:
  "fst (RefreshState example_vc_env (ERROR_DEVICE_NOT_CONNECTED, ZeroMemory_XINPUT_STATE) example_vc)
     = False
   \<and> state (snd (RefreshState example_vc_env
        (ERROR_DEVICE_NOT_CONNECTED, ZeroMemory_XINPUT_STATE) example_vc)) = example_neutral_state
   \<and> stateIdentifier (snd (RefreshState example_vc_env
        (ERROR_DEVICE_NOT_CONNECTED, ZeroMemory_XINPUT_STATE) example_vc))
     = \<lparr>packetNumber = 7, errorCode = ERROR_SUCCESS\<rparr>"
proof -
  have "(fst (ERROR_DEVICE_NOT_CONNECTED, ZeroMemory_XINPUT_STATE) = ERROR_SUCCESS)
          \<noteq> (errorCode (stateIdentifier example_vc) = ERROR_SUCCESS)"
    by (simp add: example_vc_def ERROR_DEVICE_NOT_CONNECTED_def ERROR_SUCCESS_def)
  from RefreshState_transition_is_no_change [OF this, of example_vc_env]
  show ?thesis by (simp add: example_vc_def)
qed

text \<open>
  C8. When a refresh is needed, \<^verbatim>\<open>GetState\<close> acquires \<^verbatim>\<open>controllerMutex\<close> and calls
  \<^verbatim>\<open>RefreshState\<close>, which acquires it again while it is held.
\<close>

theorem GetState_nested_acquisition:
  "stateRefreshNeeded vc \<Longrightarrow> nestedAcquire (lockTrace (snd (GetState env x vc)))"
  by (simp add: GetState_def RefreshState_def Let_def)

theorem GetState_nested_acquisition_witness:
  "stateRefreshNeeded example_vc
   \<and> nestedAcquire (lockTrace (snd (GetState example_vc_env
         (ERROR_SUCCESS, ZeroMemory_XINPUT_STATE\<lparr>dwPacketNumber := 8\<rparr>) example_vc)))"
proof -
  have "stateRefreshNeeded example_vc" by (simp add: example_vc_def)
  with GetState_nested_acquisition [OF this, of example_vc_env]
  show ?thesis by simp
qed


section \<open>Setting the data format\<close>

lemma MapInstanceAndOffset_frame [simp]:
  "mapsValid (MapInstanceAndOffset i ofs m) = mapsValid m"
  "axisProperties (MapInstanceAndOffset i ofs m) = axisProperties m"
  "dataPacketSize (MapInstanceAndOffset i ofs m) = dataPacketSize m"
  by (simp_all add: MapInstanceAndOffset_def)

lemma pick_axis_frame:
  "pick_axis env any spec d l m = Some (bad, l', m') \<Longrightarrow>
   mapsValid m' = mapsValid m \<and> axisProperties m' = axisProperties m"
  by (auto simp: pick_axis_def Let_def split: option.splits if_splits prod.splits)

lemma pick_button_frame:
  "pick_button env any spec d l m = Some (bad, l', m') \<Longrightarrow>
   mapsValid m' = mapsValid m \<and> axisProperties m' = axisProperties m"
  by (auto simp: pick_button_def Let_def split: option.splits if_splits prod.splits)

lemma pick_pov_frame:
  "pick_pov env any spec d l m = Some (bad, l', m') \<Longrightarrow>
   mapsValid m' = mapsValid m \<and> axisProperties m' = axisProperties m"
  by (auto simp: pick_pov_def Let_def split: option.splits if_splits prod.splits)

lemma process_object_frame:
  "process_object env sz d l m = Some (bad, l', m') \<Longrightarrow>
   mapsValid m' = mapsValid m \<and> axisProperties m' = axisProperties m"
  unfolding process_object_def Let_def
  by (auto split: option.splits if_splits dest: pick_axis_frame pick_button_frame pick_pov_frame)

lemma objects_loop_invalid:
  "objects_loop env sz ds l m = Some (DIERR_INVALIDPARAM, m') \<Longrightarrow>
   mapsValid m' = mapsValid m \<and> axisProperties m' = axisProperties m"
proof (induction ds arbitrary: l m)
  case Nil
  then show ?case by simp
next
  case (Cons d ds)
  then show ?case
    by (auto split: option.splits if_splits dest!: process_object_frame)
qed


lemma overlap_offsets_first:
  "CheckAndSetOffsets (replicate 8 False) 0 4 =
     Some (True, [True, True, True, True, False, False, False, False])"
  by code_simp

lemma overlap_offsets_second:
  "CheckAndSetOffsets [True, True, True, True, False, False, False, False] 2 4 =
     Some (False, [True, True, True, True, False, False, False, False])"
  by code_simp

lemma overlap_format_result:
  "SetApplicationDataFormat example_env example_overlap_format example_mapper =
     Some (DIERR_INVALIDPARAM,
       example_mapper\<lparr>instanceToOffset := [0 \<mapsto> 0], offsetToInstance := [0 \<mapsto> 0],
         mapsValid := False\<rparr>)"
  by (simp add: SetApplicationDataFormat_def example_overlap_format_def example_mapper_def
      example_env_def ResetApplicationDataFormat_def initial_locals_def process_object_def
      claim_offsets_def SizeofInstance_def pick_axis_def
      SelectInstance_def MapInstanceAndOffset_def map_insert_def advance_all_def
      DIDFT_ABSAXIS_def DIDFT_INSTANCEMASK_def DIDFT_ANYINSTANCE_def DIDFT_GETINSTANCE_def
      TInstanceIdx_cast_def example_identifier_def example_type_number_def Let_def
      overlap_offsets_first overlap_offsets_second)

text \<open>
  C2 (as amended). When \<^verbatim>\<open>SetApplicationDataFormat\<close> fails with \<^verbatim>\<open>DIERR_INVALIDPARAM\<close>, the
  data format is unset: \<^verbatim>\<open>IsApplicationDataFormatSet\<close> is false, and \<^verbatim>\<open>OffsetForInstance\<close> and
  \<^verbatim>\<open>InstanceForOffset\<close> find nothing; the axis properties are as before; and when the
  failure is that of the packet size, the mapper is the one that
  \<^verbatim>\<open>ResetApplicationDataFormat\<close> leaves. The binding installed before is discarded, not
  preserved.
\<close>

theorem SetApplicationDataFormat_failure_unsets_format:
  assumes "SetApplicationDataFormat env lpdf m = Some (DIERR_INVALIDPARAM, m')"
  shows "\<not> IsApplicationDataFormatSet m'
       \<and> (\<forall>i. OffsetForInstance m' i = - 1)
       \<and> (\<forall>ofs. InstanceForOffset m' ofs = - 1)
       \<and> axisProperties m' = axisProperties m
       \<and> (dwDataSize lpdf mod 4 \<noteq> 0 \<or> kMaxDataPacketSize env < dwDataSize lpdf
            \<longrightarrow> m' = ResetApplicationDataFormat m)"
proof -
  have "\<not> mapsValid m' \<and> axisProperties m' = axisProperties m"
    using assms
    by (auto simp: SetApplicationDataFormat_def Let_def ResetApplicationDataFormat_def
        split: if_splits dest!: objects_loop_invalid)
  moreover have "dwDataSize lpdf mod 4 \<noteq> 0 \<or> kMaxDataPacketSize env < dwDataSize lpdf
            \<longrightarrow> m' = ResetApplicationDataFormat m"
    using assms by (auto simp: SetApplicationDataFormat_def Let_def split: if_splits)
  ultimately show ?thesis
    by (simp add: IsApplicationDataFormatSet_def OffsetForInstance_def InstanceForOffset_def)
qed

theorem SetApplicationDataFormat_failure_unsets_format_witness:
  "SetApplicationDataFormat example_env example_overlap_format example_mapper =
     Some (DIERR_INVALIDPARAM,
       example_mapper\<lparr>instanceToOffset := [0 \<mapsto> 0], offsetToInstance := [0 \<mapsto> 0],
         mapsValid := False\<rparr>)
   \<and> OffsetForInstance
        (example_mapper\<lparr>instanceToOffset := [0 \<mapsto> 0], offsetToInstance := [0 \<mapsto> 0],
           mapsValid := False\<rparr>) 1 = - 1
   \<and> InstanceForOffset
        (example_mapper\<lparr>instanceToOffset := [0 \<mapsto> 0], offsetToInstance := [0 \<mapsto> 0],
           mapsValid := False\<rparr>) 4 = - 1"
  using SetApplicationDataFormat_failure_unsets_format [OF overlap_format_result]
    overlap_format_result
  by simp

text \<open>
  C2 as stated fails: with the axis 1 bound to the offset 4, a data format of two axes that
  claim the bytes \<open>[0..4)\<close> and \<open>[2..6)\<close> is refused with \<^verbatim>\<open>DIERR_INVALIDPARAM\<close>, and
  afterwards the maps hold the first axis of the refused format at the offset 0 instead of
  the binding installed before, and the data format is unset.
\<close>

theorem SetApplicationDataFormat_failure_discards_binding:
  "SetApplicationDataFormat example_env example_overlap_format example_mapper =
     Some (DIERR_INVALIDPARAM,
       example_mapper\<lparr>instanceToOffset := [0 \<mapsto> 0], offsetToInstance := [0 \<mapsto> 0],
         mapsValid := False\<rparr>)
   \<and> example_mapper\<lparr>instanceToOffset := [0 \<mapsto> 0], offsetToInstance := [0 \<mapsto> 0],
         mapsValid := False\<rparr> \<noteq> example_mapper"
proof -
  have "mapsValid (example_mapper\<lparr>instanceToOffset := [0 \<mapsto> 0], offsetToInstance := [0 \<mapsto> 0],
         mapsValid := False\<rparr>) \<noteq> mapsValid example_mapper"
    by (simp add: example_mapper_def)
  then have "example_mapper\<lparr>instanceToOffset := [0 \<mapsto> 0], offsetToInstance := [0 \<mapsto> 0],
         mapsValid := False\<rparr> \<noteq> example_mapper"
    by metis
  with overlap_format_result show ?thesis by simp
qed

section \<open>Writing properties\<close>

lemma store_axis_properties_nth:
  "distinct js \<Longrightarrow>
   \<forall>j\<in>set js. j < length ps \<and> ExtractIdentifierInstanceIndex env (int j) = int j \<Longrightarrow>
   \<exists>ps'. store_axis_properties env f (map int js) ps = Some ps' \<and> length ps' = length ps
     \<and> (\<forall>j<length ps. ps' ! j = (if j \<in> set js then f (ps ! j) else ps ! j))"
proof (induction js arbitrary: ps)
  case Nil
  then show ?case by simp
next
  case (Cons i js)
  let ?ps = "ps[i := f (ps ! i)]"
  from Cons.prems have i: "i < length ps" "ExtractIdentifierInstanceIndex env (int i) = int i"
    and notin: "i \<notin> set js" and d: "distinct js"
    by simp_all
  from Cons.prems have "\<forall>j\<in>set js. j < length ?ps \<and> ExtractIdentifierInstanceIndex env (int j) = int j"
    by simp
  from Cons.IH [OF d this] obtain ps' where
    a: "store_axis_properties env f (map int js) ?ps = Some ps'"
    and b: "length ps' = length ps"
    and c: "\<forall>j<length ps. ps' ! j = (if j \<in> set js then f (?ps ! j) else ?ps ! j)"
    by auto
  have "\<forall>j<length ps. ps' ! j = (if j \<in> set (i # js) then f (ps ! j) else ps ! j)"
  proof (intro allI impI)
    fix j assume j: "j < length ps"
    show "ps' ! j = (if j \<in> set (i # js) then f (ps ! j) else ps ! j)"
    proof (cases "j = i")
      case True
      with c j notin i show ?thesis by simp
    next
      case False
      with c j show ?thesis by simp
    qed
  qed
  with a b i show ?case by simp
qed

lemma upto_eq_map_int: "[0..int n - 1] = map int [0..<n]"
  by (rule nth_equalityI) simp_all

lemma store_axis_properties_all:
  assumes "\<forall>i. 0 \<le> i \<and> i < int (length ps) \<longrightarrow> ExtractIdentifierInstanceIndex env i = i"
  shows "store_axis_properties env f [0..int (length ps) - 1] ps = Some (map f ps)"
proof -
  have "\<forall>j\<in>set [0..<length ps]. j < length ps \<and> ExtractIdentifierInstanceIndex env (int j) = int j"
    using assms by simp
  from store_axis_properties_nth [OF distinct_upt this, of f] obtain ps' where
    a: "store_axis_properties env f (map int [0..<length ps]) ps = Some ps'"
    and b: "length ps' = length ps"
    and c: "\<forall>j<length ps. ps' ! j = (if j \<in> set [0..<length ps] then f (ps ! j) else ps ! j)"
    by blast
  have c': "ps' ! j = f (ps ! j)" if "j < length ps" for j
  proof -
    from c that have "ps' ! j = (if j \<in> set [0..<length ps] then f (ps ! j) else ps ! j)"
      by blast
    with that show ?thesis by simp
  qed
  have "ps' = map f ps"
    by (rule nth_equalityI) (simp_all add: b c')
  with a have "store_axis_properties env f (map int [0..<length ps]) ps = Some (map f ps)"
    by blast
  then show ?thesis unfolding upto_eq_map_int .
qed

lemma InitializeAxisProperties_length:
  assumes "\<forall>ps. axisProperties m = Some ps \<longrightarrow> length ps = NumInstancesOfType env InstanceTypeAxis"
  shows "\<exists>ps. axisProperties (InitializeAxisProperties env m) = Some ps
           \<and> length ps = NumInstancesOfType env InstanceTypeAxis"
  using assms by (auto simp: InitializeAxisProperties_def split: option.splits)

lemma set_every_axis_apply: "set_every_axis f props a = f (props a)"
  by (cases a) (simp_all add: set_every_axis_def EAxis_all_def)


lemma write_property_whole_device:
  assumes ps: "axisProperties m = Some ps" "length ps = NumInstancesOfType env InstanceTypeAxis"
    and idx: "\<forall>i. 0 \<le> i \<and> i < int (NumInstancesOfType env InstanceTypeAxis)
                \<longrightarrow> ExtractIdentifierInstanceIndex env i = i"
  shows "write_property env DIPROP_DEADZONE pdiph 0
           (int (NumInstancesOfType env InstanceTypeAxis) - 1) m =
         (if dwData pdiph < kMinAxisDeadzoneSaturation \<or> kMaxAxisDeadzoneSaturation < dwData pdiph
          then Some (DIERR_INVALIDPARAM, m)
          else Some (DI_OK, m\<lparr>axisProperties := Some (map (\<lambda>p. p\<lparr>deadzone := dwData pdiph\<rparr>) ps)\<rparr>))"
    and "write_property env DIPROP_SATURATION pdiph 0
           (int (NumInstancesOfType env InstanceTypeAxis) - 1) m =
         (if dwData pdiph < kMinAxisDeadzoneSaturation \<or> kMaxAxisDeadzoneSaturation < dwData pdiph
          then Some (DIERR_INVALIDPARAM, m)
          else Some (DI_OK, m\<lparr>axisProperties := Some (map (\<lambda>p. p\<lparr>saturation := dwData pdiph\<rparr>) ps)\<rparr>))"
    and "write_property env DIPROP_RANGE pdiph 0
           (int (NumInstancesOfType env InstanceTypeAxis) - 1) m =
         (if \<not> sint (lMin pdiph) < sint (lMax pdiph)
          then Some (DIERR_INVALIDPARAM, m)
          else Some (DI_OK, m\<lparr>axisProperties :=
                 Some (map (\<lambda>p. p\<lparr>rangeMin := lMin pdiph, rangeMax := lMax pdiph\<rparr>) ps)\<rparr>))"
proof -
  have i: "\<forall>i. 0 \<le> i \<and> i < int (length ps) \<longrightarrow> ExtractIdentifierInstanceIndex env i = i"
    using idx ps(2) by simp
  have st: "store_axis_properties env f [0..int (NumInstancesOfType env InstanceTypeAxis) - 1] ps
              = Some (map f ps)" for f
    using store_axis_properties_all [OF i, of f] ps(2) by simp
  show "write_property env DIPROP_DEADZONE pdiph 0
           (int (NumInstancesOfType env InstanceTypeAxis) - 1) m =
         (if dwData pdiph < kMinAxisDeadzoneSaturation \<or> kMaxAxisDeadzoneSaturation < dwData pdiph
          then Some (DIERR_INVALIDPARAM, m)
          else Some (DI_OK, m\<lparr>axisProperties := Some (map (\<lambda>p. p\<lparr>deadzone := dwData pdiph\<rparr>) ps)\<rparr>))"
    by (simp add: write_property_def ps(1) st)
  show "write_property env DIPROP_SATURATION pdiph 0
           (int (NumInstancesOfType env InstanceTypeAxis) - 1) m =
         (if dwData pdiph < kMinAxisDeadzoneSaturation \<or> kMaxAxisDeadzoneSaturation < dwData pdiph
          then Some (DIERR_INVALIDPARAM, m)
          else Some (DI_OK, m\<lparr>axisProperties := Some (map (\<lambda>p. p\<lparr>saturation := dwData pdiph\<rparr>) ps)\<rparr>))"
    by (simp add: write_property_def ps(1) st)
  show "write_property env DIPROP_RANGE pdiph 0
           (int (NumInstancesOfType env InstanceTypeAxis) - 1) m =
         (if \<not> sint (lMin pdiph) < sint (lMax pdiph)
          then Some (DIERR_INVALIDPARAM, m)
          else Some (DI_OK, m\<lparr>axisProperties :=
                 Some (map (\<lambda>p. p\<lparr>rangeMin := lMin pdiph, rangeMax := lMax pdiph\<rparr>) ps)\<rparr>))"
    by (simp add: write_property_def ps(1) st)
qed

lemma SetMappedProperty_whole_device:
  assumes dev: "dwHow pdiph = DIPH_DEVICE" "dwObj pdiph = 0" "dwHeaderSize pdiph = sizeof_DIPROPHEADER"
    and axes: "0 < NumInstancesOfType env InstanceTypeAxis"
    and which: "rguidProp = DIPROP_DEADZONE \<or> rguidProp = DIPROP_SATURATION \<or> rguidProp = DIPROP_RANGE"
    and sz: "dwSize pdiph = (if rguidProp = DIPROP_RANGE then sizeof_DIPROPRANGE else sizeof_DIPROPDWORD)"
  shows "SetMappedProperty env rguidProp pdiph m =
           write_property env rguidProp pdiph 0 (int (NumInstancesOfType env InstanceTypeAxis) - 1)
             (InitializeAxisProperties env m)"
  using assms
  by (auto simp: SetMappedProperty_def Let_def IsPropertyHandledByMapper_def)

lemma set_every_axis_eq: "set_every_axis f props = (\<lambda>a. f (props a))"
  by (rule ext) (rule set_every_axis_apply)

text \<open>
  C7. A write of deadzone, saturation or range to the whole device is atomic. In
  \<^verbatim>\<open>SetMappedProperty\<close> (the request well-formed, the profile with an axis): a value out of
  bounds gives \<^verbatim>\<open>DIERR_INVALIDPARAM\<close> and the mapper is the one that the lazy initialisation
  of the axis properties leaves, no entry changed; a value in bounds gives \<^verbatim>\<open>DI_OK\<close> and
  the property of every axis is the new value. When the mapper has a table of axis
  properties already, a refused write returns the mapper as it was, and an accepted one
  changes the written property of every entry of the table and nothing else; when it has
  none yet, the table is the one of the default properties. In the virtual controller: the bulk setters
  return \<^verbatim>\<open>false\<close> and change nothing for a value out of bounds, and apply the setter to
  every axis otherwise. (The loop of \<^verbatim>\<open>SetMappedProperty\<close> decodes its index with
  \<open>ExtractIdentifierInstanceIndex\<close>, a parameter: the index of an axis is assumed to decode
  to itself.)
\<close>

theorem bulk_property_write_atomic:
  assumes dev: "dwHow pdiph = DIPH_DEVICE" "dwObj pdiph = 0" "dwHeaderSize pdiph = sizeof_DIPROPHEADER"
    and axes: "0 < NumInstancesOfType env InstanceTypeAxis"
    and len: "\<forall>ps. axisProperties m = Some ps \<longrightarrow> length ps = NumInstancesOfType env InstanceTypeAxis"
    and idx: "\<forall>i. 0 \<le> i \<and> i < int (NumInstancesOfType env InstanceTypeAxis)
                \<longrightarrow> ExtractIdentifierInstanceIndex env i = i"
  shows
    "(dwSize pdiph = sizeof_DIPROPDWORD \<longrightarrow>
        SetMappedProperty env DIPROP_DEADZONE pdiph m =
          (if dwData pdiph < kMinAxisDeadzoneSaturation \<or> kMaxAxisDeadzoneSaturation < dwData pdiph
           then Some (DIERR_INVALIDPARAM, InitializeAxisProperties env m)
           else Some (DI_OK, (InitializeAxisProperties env m)
                  \<lparr>axisProperties := map_option (map (\<lambda>p. p\<lparr>deadzone := dwData pdiph\<rparr>))
                     (axisProperties (InitializeAxisProperties env m))\<rparr>))
      \<and> SetMappedProperty env DIPROP_SATURATION pdiph m =
          (if dwData pdiph < kMinAxisDeadzoneSaturation \<or> kMaxAxisDeadzoneSaturation < dwData pdiph
           then Some (DIERR_INVALIDPARAM, InitializeAxisProperties env m)
           else Some (DI_OK, (InitializeAxisProperties env m)
                  \<lparr>axisProperties := map_option (map (\<lambda>p. p\<lparr>saturation := dwData pdiph\<rparr>))
                     (axisProperties (InitializeAxisProperties env m))\<rparr>)))
   \<and> (dwSize pdiph = sizeof_DIPROPRANGE \<longrightarrow>
        SetMappedProperty env DIPROP_RANGE pdiph m =
          (if \<not> sint (lMin pdiph) < sint (lMax pdiph)
           then Some (DIERR_INVALIDPARAM, InitializeAxisProperties env m)
           else Some (DI_OK, (InitializeAxisProperties env m)
                  \<lparr>axisProperties :=
                     map_option (map (\<lambda>p. p\<lparr>rangeMin := lMin pdiph, rangeMax := lMax pdiph\<rparr>))
                     (axisProperties (InitializeAxisProperties env m))\<rparr>)))
   \<and> SetAllAxisDeadzone venv dz vc =
        (if kAxisDeadzoneMin venv \<le> dz \<and> dz \<le> kAxisDeadzoneMax venv
         then (True, vc\<lparr>properties := (\<lambda>a. SetDeadzone venv dz (properties vc a)),
                        lockTrace := Release # Acquire # lockTrace vc\<rparr>)
         else (False, vc))
   \<and> SetAllAxisSaturation venv sat vc =
        (if kAxisSaturationMin venv \<le> sat \<and> sat \<le> kAxisSaturationMax venv
         then (True, vc\<lparr>properties := (\<lambda>a. SetSaturation venv sat (properties vc a)),
                        lockTrace := Release # Acquire # lockTrace vc\<rparr>)
         else (False, vc))
   \<and> SetAllAxisRange venv lo hi vc =
        (if sint lo < sint hi
         then (True, vc\<lparr>properties := (\<lambda>a. SetRange venv lo hi (properties vc a)),
                        lockTrace := Release # Acquire # lockTrace vc\<rparr>)
         else (False, vc))
   \<and> (\<forall>ps. axisProperties m = Some ps \<longrightarrow>
        (dwSize pdiph = sizeof_DIPROPDWORD \<longrightarrow>
           SetMappedProperty env DIPROP_DEADZONE pdiph m =
             (if dwData pdiph < kMinAxisDeadzoneSaturation \<or> kMaxAxisDeadzoneSaturation < dwData pdiph
              then Some (DIERR_INVALIDPARAM, m)
              else Some (DI_OK, m\<lparr>axisProperties := Some (map (\<lambda>p. p\<lparr>deadzone := dwData pdiph\<rparr>) ps)\<rparr>))
         \<and> SetMappedProperty env DIPROP_SATURATION pdiph m =
             (if dwData pdiph < kMinAxisDeadzoneSaturation \<or> kMaxAxisDeadzoneSaturation < dwData pdiph
              then Some (DIERR_INVALIDPARAM, m)
              else Some (DI_OK, m\<lparr>axisProperties := Some (map (\<lambda>p. p\<lparr>saturation := dwData pdiph\<rparr>) ps)\<rparr>)))
      \<and> (dwSize pdiph = sizeof_DIPROPRANGE \<longrightarrow>
           SetMappedProperty env DIPROP_RANGE pdiph m =
             (if \<not> sint (lMin pdiph) < sint (lMax pdiph)
              then Some (DIERR_INVALIDPARAM, m)
              else Some (DI_OK, m\<lparr>axisProperties :=
                     Some (map (\<lambda>p. p\<lparr>rangeMin := lMin pdiph, rangeMax := lMax pdiph\<rparr>) ps)\<rparr>))))
   \<and> (axisProperties m = None \<longrightarrow>
        axisProperties (InitializeAxisProperties env m)
          = Some (replicate (NumInstancesOfType env InstanceTypeAxis) default_axis_properties)
      \<and> InitializeAxisProperties env m
          = m\<lparr>axisProperties :=
                Some (replicate (NumInstancesOfType env InstanceTypeAxis) default_axis_properties)\<rparr>)"
proof -
  from InitializeAxisProperties_length [OF len] obtain ps where
    ps: "axisProperties (InitializeAxisProperties env m) = Some ps"
        "length ps = NumInstancesOfType env InstanceTypeAxis"
    by blast
  note w = write_property_whole_device [OF ps idx, of pdiph]
  have dz: "dwSize pdiph = sizeof_DIPROPDWORD \<Longrightarrow>
        SetMappedProperty env DIPROP_DEADZONE pdiph m =
          write_property env DIPROP_DEADZONE pdiph 0 (int (NumInstancesOfType env InstanceTypeAxis) - 1)
            (InitializeAxisProperties env m)"
    by (rule SetMappedProperty_whole_device [OF dev axes]) simp_all
  have st: "dwSize pdiph = sizeof_DIPROPDWORD \<Longrightarrow>
        SetMappedProperty env DIPROP_SATURATION pdiph m =
          write_property env DIPROP_SATURATION pdiph 0 (int (NumInstancesOfType env InstanceTypeAxis) - 1)
            (InitializeAxisProperties env m)"
    by (rule SetMappedProperty_whole_device [OF dev axes]) simp_all
  have rg: "dwSize pdiph = sizeof_DIPROPRANGE \<Longrightarrow>
        SetMappedProperty env DIPROP_RANGE pdiph m =
          write_property env DIPROP_RANGE pdiph 0 (int (NumInstancesOfType env InstanceTypeAxis) - 1)
            (InitializeAxisProperties env m)"
    by (rule SetMappedProperty_whole_device [OF dev axes]) simp_all
  have cfg: "InitializeAxisProperties env m = m" "ps = qs" if "axisProperties m = Some qs" for qs
    using that ps(1) by (simp_all add: InitializeAxisProperties_def)
  have fresh: "InitializeAxisProperties env m
          = m\<lparr>axisProperties :=
                Some (replicate (NumInstancesOfType env InstanceTypeAxis) default_axis_properties)\<rparr>"
    if "axisProperties m = None"
    using that by (simp add: InitializeAxisProperties_def default_axis_properties_def)
  have old: "(dwSize pdiph = sizeof_DIPROPDWORD \<longrightarrow>
        SetMappedProperty env DIPROP_DEADZONE pdiph m =
          (if dwData pdiph < kMinAxisDeadzoneSaturation \<or> kMaxAxisDeadzoneSaturation < dwData pdiph
           then Some (DIERR_INVALIDPARAM, InitializeAxisProperties env m)
           else Some (DI_OK, (InitializeAxisProperties env m)
                  \<lparr>axisProperties := Some (map (\<lambda>p. p\<lparr>deadzone := dwData pdiph\<rparr>) ps)\<rparr>))
      \<and> SetMappedProperty env DIPROP_SATURATION pdiph m =
          (if dwData pdiph < kMinAxisDeadzoneSaturation \<or> kMaxAxisDeadzoneSaturation < dwData pdiph
           then Some (DIERR_INVALIDPARAM, InitializeAxisProperties env m)
           else Some (DI_OK, (InitializeAxisProperties env m)
                  \<lparr>axisProperties := Some (map (\<lambda>p. p\<lparr>saturation := dwData pdiph\<rparr>) ps)\<rparr>)))
   \<and> (dwSize pdiph = sizeof_DIPROPRANGE \<longrightarrow>
        SetMappedProperty env DIPROP_RANGE pdiph m =
          (if \<not> sint (lMin pdiph) < sint (lMax pdiph)
           then Some (DIERR_INVALIDPARAM, InitializeAxisProperties env m)
           else Some (DI_OK, (InitializeAxisProperties env m)
                  \<lparr>axisProperties :=
                     Some (map (\<lambda>p. p\<lparr>rangeMin := lMin pdiph, rangeMax := lMax pdiph\<rparr>) ps)\<rparr>)))"
    by (simp add: dz st rg w)
  have vc: "SetAllAxisDeadzone venv dz vc =
        (if kAxisDeadzoneMin venv \<le> dz \<and> dz \<le> kAxisDeadzoneMax venv
         then (True, vc\<lparr>properties := (\<lambda>a. SetDeadzone venv dz (properties vc a)),
                        lockTrace := Release # Acquire # lockTrace vc\<rparr>)
         else (False, vc))
   \<and> SetAllAxisSaturation venv sat vc =
        (if kAxisSaturationMin venv \<le> sat \<and> sat \<le> kAxisSaturationMax venv
         then (True, vc\<lparr>properties := (\<lambda>a. SetSaturation venv sat (properties vc a)),
                        lockTrace := Release # Acquire # lockTrace vc\<rparr>)
         else (False, vc))
   \<and> SetAllAxisRange venv lo hi vc =
        (if sint lo < sint hi
         then (True, vc\<lparr>properties := (\<lambda>a. SetRange venv lo hi (properties vc a)),
                        lockTrace := Release # Acquire # lockTrace vc\<rparr>)
         else (False, vc))"
    by (simp add: SetAllAxisDeadzone_def SetAllAxisSaturation_def
        SetAllAxisRange_def set_every_axis_eq)
  have configured: "(dwSize pdiph = sizeof_DIPROPDWORD \<longrightarrow>
           SetMappedProperty env DIPROP_DEADZONE pdiph m =
             (if dwData pdiph < kMinAxisDeadzoneSaturation \<or> kMaxAxisDeadzoneSaturation < dwData pdiph
              then Some (DIERR_INVALIDPARAM, m)
              else Some (DI_OK, m\<lparr>axisProperties := Some (map (\<lambda>p. p\<lparr>deadzone := dwData pdiph\<rparr>) qs)\<rparr>))
         \<and> SetMappedProperty env DIPROP_SATURATION pdiph m =
             (if dwData pdiph < kMinAxisDeadzoneSaturation \<or> kMaxAxisDeadzoneSaturation < dwData pdiph
              then Some (DIERR_INVALIDPARAM, m)
              else Some (DI_OK, m\<lparr>axisProperties := Some (map (\<lambda>p. p\<lparr>saturation := dwData pdiph\<rparr>) qs)\<rparr>)))
      \<and> (dwSize pdiph = sizeof_DIPROPRANGE \<longrightarrow>
           SetMappedProperty env DIPROP_RANGE pdiph m =
             (if \<not> sint (lMin pdiph) < sint (lMax pdiph)
              then Some (DIERR_INVALIDPARAM, m)
              else Some (DI_OK, m\<lparr>axisProperties :=
                     Some (map (\<lambda>p. p\<lparr>rangeMin := lMin pdiph, rangeMax := lMax pdiph\<rparr>) qs)\<rparr>)))"
    if "axisProperties m = Some qs" for qs
    using old cfg [OF that] by simp
  from old vc configured fresh show ?thesis
    by (simp add: ps(1))
qed

lemma example_initialized:
  "InitializeAxisProperties example_env example_mapper =
     example_mapper\<lparr>axisProperties := Some (replicate 5
        \<lparr>rangeMin = - 32768, rangeMax = 32767, deadzone = 0, saturation = 10000\<rparr>)\<rparr>"
  by (simp add: InitializeAxisProperties_def example_mapper_def example_env_def
      kDefaultAxisRangeMin_def kDefaultAxisRangeMax_def kDefaultAxisDeadzone_def
      kDefaultAxisSaturation_def)

lemma example_configured:
  "axisProperties example_configured_mapper = Some
       [\<lparr>rangeMin = - 100, rangeMax = 100, deadzone = 500, saturation = 9000\<rparr>,
        \<lparr>rangeMin = 0, rangeMax = 255, deadzone = 100, saturation = 9500\<rparr>,
        \<lparr>rangeMin = - 32768, rangeMax = 32767, deadzone = 0, saturation = 10000\<rparr>,
        \<lparr>rangeMin = - 5, rangeMax = 5, deadzone = 2000, saturation = 8000\<rparr>,
        \<lparr>rangeMin = - 32768, rangeMax = 32767, deadzone = 0, saturation = 10000\<rparr>]"
  by (simp add: example_configured_mapper_def)

theorem bulk_property_write_atomic_witness:
  "SetMappedProperty example_env DIPROP_DEADZONE example_deadzone_request example_mapper
     = Some (DIERR_INVALIDPARAM, InitializeAxisProperties example_env example_mapper)
   \<and> SetMappedProperty example_env DIPROP_RANGE example_range_request example_mapper
     = Some (DI_OK, example_mapper\<lparr>axisProperties := Some (replicate 5
          \<lparr>rangeMin = - 1000, rangeMax = 1000, deadzone = 0, saturation = 10000\<rparr>)\<rparr>)
   \<and> SetAllAxisSaturation example_vc_env 10001 example_vc = (False, example_vc)
   \<and> fst (SetAllAxisDeadzone example_vc_env 2500 example_vc)
   \<and> SetMappedProperty example_env DIPROP_DEADZONE example_deadzone_request example_configured_mapper
     = Some (DIERR_INVALIDPARAM, example_configured_mapper)
   \<and> SetMappedProperty example_env DIPROP_RANGE example_range_request example_configured_mapper
     = Some (DI_OK, example_configured_mapper\<lparr>axisProperties := Some
         [\<lparr>rangeMin = - 1000, rangeMax = 1000, deadzone = 500, saturation = 9000\<rparr>,
          \<lparr>rangeMin = - 1000, rangeMax = 1000, deadzone = 100, saturation = 9500\<rparr>,
          \<lparr>rangeMin = - 1000, rangeMax = 1000, deadzone = 0, saturation = 10000\<rparr>,
          \<lparr>rangeMin = - 1000, rangeMax = 1000, deadzone = 2000, saturation = 8000\<rparr>,
          \<lparr>rangeMin = - 1000, rangeMax = 1000, deadzone = 0, saturation = 10000\<rparr>]\<rparr>)"
proof -
  have h: "0 < NumInstancesOfType example_env InstanceTypeAxis"
    "\<forall>ps. axisProperties example_mapper = Some ps
        \<longrightarrow> length ps = NumInstancesOfType example_env InstanceTypeAxis"
    "\<forall>i. 0 \<le> i \<and> i < int (NumInstancesOfType example_env InstanceTypeAxis)
        \<longrightarrow> ExtractIdentifierInstanceIndex example_env i = i"
    by (simp_all add: example_env_def example_mapper_def)
  have hc: "\<forall>ps. axisProperties example_configured_mapper = Some ps
        \<longrightarrow> length ps = NumInstancesOfType example_env InstanceTypeAxis"
    by (simp add: example_env_def example_configured)
  have d: "dwHow example_deadzone_request = DIPH_DEVICE" "dwObj example_deadzone_request = 0"
    "dwHeaderSize example_deadzone_request = sizeof_DIPROPHEADER"
    by (simp_all add: example_deadzone_request_def DIPH_DEVICE_def sizeof_DIPROPHEADER_def)
  have r: "dwHow example_range_request = DIPH_DEVICE" "dwObj example_range_request = 0"
    "dwHeaderSize example_range_request = sizeof_DIPROPHEADER"
    by (simp_all add: example_range_request_def DIPH_DEVICE_def sizeof_DIPROPHEADER_def)
  have 1: "SetMappedProperty example_env DIPROP_DEADZONE example_deadzone_request example_mapper
     = Some (DIERR_INVALIDPARAM, InitializeAxisProperties example_env example_mapper)"
    using bulk_property_write_atomic [OF d h, THEN conjunct1]
    by (simp add: example_deadzone_request_def sizeof_DIPROPDWORD_def
        kMinAxisDeadzoneSaturation_def kMaxAxisDeadzoneSaturation_def)
  have 2: "SetMappedProperty example_env DIPROP_RANGE example_range_request example_mapper
     = Some (DI_OK, example_mapper\<lparr>axisProperties := Some (replicate 5
          \<lparr>rangeMin = - 1000, rangeMax = 1000, deadzone = 0, saturation = 10000\<rparr>)\<rparr>)"
    using bulk_property_write_atomic [OF r h, THEN conjunct2, THEN conjunct1]
    by (simp add: example_range_request_def sizeof_DIPROPRANGE_def example_initialized)
  have 3: "SetAllAxisSaturation example_vc_env 10001 example_vc = (False, example_vc)"
    using bulk_property_write_atomic [OF r h, of example_vc_env _ _ 10001, THEN conjunct2, THEN conjunct2, THEN conjunct2, THEN conjunct1]
    by (simp add: example_vc_env_def)
  have 4: "fst (SetAllAxisDeadzone example_vc_env 2500 example_vc)"
    using bulk_property_write_atomic [OF r h, of example_vc_env 2500 example_vc, THEN conjunct2, THEN conjunct2, THEN conjunct1]
    by (simp add: example_vc_env_def)
  note c = bulk_property_write_atomic [OF d h(1) hc h(3), THEN conjunct2, THEN conjunct2,
      THEN conjunct2, THEN conjunct2, THEN conjunct2, THEN conjunct1, rule_format, OF example_configured]
  have 5: "SetMappedProperty example_env DIPROP_DEADZONE example_deadzone_request example_configured_mapper
     = Some (DIERR_INVALIDPARAM, example_configured_mapper)"
    using c [THEN conjunct1, rule_format, THEN conjunct1]
    by (simp add: example_deadzone_request_def sizeof_DIPROPDWORD_def
        kMinAxisDeadzoneSaturation_def kMaxAxisDeadzoneSaturation_def)
  note c' = bulk_property_write_atomic [OF r h(1) hc h(3), THEN conjunct2, THEN conjunct2,
      THEN conjunct2, THEN conjunct2, THEN conjunct2, THEN conjunct1, rule_format, OF example_configured]
  have 6: "SetMappedProperty example_env DIPROP_RANGE example_range_request example_configured_mapper
     = Some (DI_OK, example_configured_mapper\<lparr>axisProperties := Some
         [\<lparr>rangeMin = - 1000, rangeMax = 1000, deadzone = 500, saturation = 9000\<rparr>,
          \<lparr>rangeMin = - 1000, rangeMax = 1000, deadzone = 100, saturation = 9500\<rparr>,
          \<lparr>rangeMin = - 1000, rangeMax = 1000, deadzone = 0, saturation = 10000\<rparr>,
          \<lparr>rangeMin = - 1000, rangeMax = 1000, deadzone = 2000, saturation = 8000\<rparr>,
          \<lparr>rangeMin = - 1000, rangeMax = 1000, deadzone = 0, saturation = 10000\<rparr>]\<rparr>)"
    using c' [THEN conjunct2, rule_format]
    by (simp add: example_range_request_def sizeof_DIPROPRANGE_def)
  from 1 2 3 4 5 6 show ?thesis by blast
qed

section \<open>Writing the state of the controller\<close>

text \<open>
  The model of the doubles on known values: \<open>0.1\<close>, \<open>0.2\<close>, their sum (the double
  \<open>0.30000000000000004\<close>) and \<open>1 / 3\<close>.
\<close>

lemma double_tenths_sum:
  "double_div (double_of_int 1) (double_of_int 10) = Some (Dbl 7205759403792794 (- 56))
   \<and> double_div (double_of_int 2) (double_of_int 10) = Some (Dbl 7205759403792794 (- 55))
   \<and> double_add (Dbl 7205759403792794 (- 56)) (Dbl 7205759403792794 (- 55))
       = Dbl 5404319552844596 (- 54)
   \<and> double_div (double_of_int 1) (double_of_int 3) = Some (Dbl 6004799503160661 (- 54))"
  by code_simp

lemma shared_trigger_remap:
  "Mapper_MapValueInRangeToRange 255 (- 255) 255 (- 32768) 32767 = Some 32767"
  "Mapper_MapValueInRangeToRange (- 255) (- 255) 255 (- 32768) 32767 = Some (- 32768)"
  "Mapper_MapValueInRangeToRange 0 (- 255) 255 (- 32768) 32767 = Some (- 1)"
  by code_simp+

lemma apply_default_properties:
  "apply_axis_properties \<lparr>rangeMin = - 32768, rangeMax = 32767, deadzone = 0, saturation = 10000\<rparr> 32767 = Some 32767"
  "apply_axis_properties \<lparr>rangeMin = - 32768, rangeMax = 32767, deadzone = 0, saturation = 10000\<rparr> (- 32768) = Some (- 32768)"
  "apply_axis_properties \<lparr>rangeMin = - 32768, rangeMax = 32767, deadzone = 0, saturation = 10000\<rparr> (- 1) = Some 0"
  "apply_axis_properties \<lparr>rangeMin = - 32768, rangeMax = 32767, deadzone = 0, saturation = 10000\<rparr> (- 32767) = Some (- 32764)"
  "apply_axis_properties \<lparr>rangeMin = - 32768, rangeMax = 32767, deadzone = 0, saturation = 10000\<rparr> 32768 = Some 32767"
  by code_simp+

lemma InvertAxisValue_stick: "InvertAxisValue v kStickRangeMin kStickRangeMax = - v"
  by (simp add: InvertAxisValue_def kStickRangeMin_def kStickRangeMax_def sdiv32_def
      signed_divide_int_def)

lemma default_axis_properties_eq:
  "default_axis_properties = \<lparr>rangeMin = - 32768, rangeMax = 32767, deadzone = 0, saturation = 10000\<rparr>"
  by (simp add: default_axis_properties_def kDefaultAxisRangeMin_def kDefaultAxisRangeMax_def
      kDefaultAxisDeadzone_def kDefaultAxisSaturation_def)

lemma shared_trigger_write:
  assumes lt: "MapXInputElementToDirectInputInstance env TriggerLT = inst"
    and rt: "MapXInputElementToDirectInputInstance env TriggerRT = inst"
    and inst: "0 \<le> inst" "ExtractIdentifierInstanceType env inst = InstanceTypeAxis"
    and idx: "ExtractIdentifierInstanceIndex env inst < int (NumInstancesOfType env InstanceTypeAxis)"
    and props: "axis_properties_of env (mapper w) inst = Some p"
    and bound: "instanceToOffset (mapper w) inst = Some ofs"
  shows "written_value (WriteApplicationControllerState_triggers env xState w) ofs =
           (case Mapper_MapValueInRangeToRange
                   (ucast (bLeftTrigger xState) - ucast (bRightTrigger xState))
                   (- kTriggerRangeMax) kTriggerRangeMax (rangeMin p) (rangeMax p) of
              None \<Rightarrow> None
            | Some mapped \<Rightarrow> map_option LongValue (apply_axis_properties p mapped))"
proof -
  let ?m = "(mapper w)\<lparr>cachedValueXInputLT := ucast (bLeftTrigger xState),
                         cachedValueXInputRT := ucast (bRightTrigger xState)\<rparr>"
  have p: "axis_properties_of env ?m inst = Some p"
    using props by (simp add: axis_properties_of_def)
  have a: "ApplyAxisPropertiesToRawValue env ?m inst mapped = apply_axis_properties p mapped" for mapped
    by (simp add: ApplyAxisPropertiesToRawValue_def p)
  show ?thesis
    using inst idx bound
    by (simp add: WriteApplicationControllerState_triggers_def Let_def lt rt p a
        XInputTriggerSharedAxisDirection_def
        WriteAxisValueToApplicationDataStructure_def written_value_def
        split: option.splits)
qed

text \<open>
  C3 (as amended). When the two triggers share an axis that is bound to an offset, the block
  of the triggers writes there the value \<open>m * LT + (- m) * RT\<close>, with \<open>m\<close> the direction of
  the left trigger, mapped from \<open>[-kTriggerRangeMax, kTriggerRangeMax]\<close> to the range of the
  axis and then transformed by the properties of the axis. With the default properties
  (range \<open>[-32768, 32767]\<close>, deadzone 0, saturation 10000): \<open>LT = 255, RT = 0\<close> gives
  \<open>32767\<close>; \<open>LT = 0, RT = 255\<close> gives \<open>-32768\<close>; \<open>LT = RT = 128\<close> gives \<open>0\<close>.
\<close>

theorem shared_trigger_axis_written_values:
  assumes lt: "MapXInputElementToDirectInputInstance env TriggerLT = inst"
    and rt: "MapXInputElementToDirectInputInstance env TriggerRT = inst"
    and inst: "0 \<le> inst" "ExtractIdentifierInstanceType env inst = InstanceTypeAxis"
    and idx: "ExtractIdentifierInstanceIndex env inst < int (NumInstancesOfType env InstanceTypeAxis)"
    and props: "axis_properties_of env (mapper w) inst = Some p"
    and bound: "instanceToOffset (mapper w) inst = Some ofs"
  shows "written_value (WriteApplicationControllerState_triggers env xState w) ofs =
           (case Mapper_MapValueInRangeToRange
                   (XInputTriggerSharedAxisDirection TriggerLT * ucast (bLeftTrigger xState)
                      + (- XInputTriggerSharedAxisDirection TriggerLT) * ucast (bRightTrigger xState))
                   (- kTriggerRangeMax) kTriggerRangeMax (rangeMin p) (rangeMax p) of
              None \<Rightarrow> None
            | Some mapped \<Rightarrow> map_option LongValue (apply_axis_properties p mapped))
       \<and> (p = default_axis_properties \<longrightarrow>
            (bLeftTrigger xState = 255 \<and> bRightTrigger xState = 0 \<longrightarrow>
               written_value (WriteApplicationControllerState_triggers env xState w) ofs
                 = Some (LongValue 32767))
          \<and> (bLeftTrigger xState = 0 \<and> bRightTrigger xState = 255 \<longrightarrow>
               written_value (WriteApplicationControllerState_triggers env xState w) ofs
                 = Some (LongValue (- 32768)))
          \<and> (bLeftTrigger xState = 128 \<and> bRightTrigger xState = 128 \<longrightarrow>
               written_value (WriteApplicationControllerState_triggers env xState w) ofs
                 = Some (LongValue 0)))"
proof -
  note w = shared_trigger_write [OF assms, of xState]
  have 1: "written_value (WriteApplicationControllerState_triggers env xState w) ofs =
           (case Mapper_MapValueInRangeToRange
                   (XInputTriggerSharedAxisDirection TriggerLT * ucast (bLeftTrigger xState)
                      + (- XInputTriggerSharedAxisDirection TriggerLT) * ucast (bRightTrigger xState))
                   (- kTriggerRangeMax) kTriggerRangeMax (rangeMin p) (rangeMax p) of
              None \<Rightarrow> None
            | Some mapped \<Rightarrow> map_option LongValue (apply_axis_properties p mapped))"
    by (simp add: w XInputTriggerSharedAxisDirection_def)
  have 2: "written_value (WriteApplicationControllerState_triggers env xState w) ofs
             = Some (LongValue 32767)"
    if "p = default_axis_properties" "bLeftTrigger xState = 255" "bRightTrigger xState = 0"
    using that
    by (simp add: w default_axis_properties_eq kTriggerRangeMax_def shared_trigger_remap
        apply_default_properties)
  have 3: "written_value (WriteApplicationControllerState_triggers env xState w) ofs
             = Some (LongValue (- 32768))"
    if "p = default_axis_properties" "bLeftTrigger xState = 0" "bRightTrigger xState = 255"
    using that
    by (simp add: w default_axis_properties_eq kTriggerRangeMax_def shared_trigger_remap
        apply_default_properties)
  have 4: "written_value (WriteApplicationControllerState_triggers env xState w) ofs
             = Some (LongValue 0)"
    if "p = default_axis_properties" "bLeftTrigger xState = 128" "bRightTrigger xState = 128"
    using that
    by (simp add: w default_axis_properties_eq kTriggerRangeMax_def shared_trigger_remap
        apply_default_properties)
  from 1 2 3 4 show ?thesis by blast
qed

lemma example_trigger_axis:
  "MapXInputElementToDirectInputInstance example_env TriggerLT = 2"
  "MapXInputElementToDirectInputInstance example_env TriggerRT = 2"
  "(0::int) \<le> 2"
  "ExtractIdentifierInstanceType example_env 2 = InstanceTypeAxis"
  "ExtractIdentifierInstanceIndex example_env 2 < int (NumInstancesOfType example_env InstanceTypeAxis)"
  "axis_properties_of example_env (mapper example_writer_state) 2 = Some default_axis_properties"
  "instanceToOffset (mapper example_writer_state) 2 = Some 8"
  by (simp_all add: example_env_def example_element_def example_identifier_def
      example_type_number_def example_writer_state_def axis_properties_of_def)

theorem shared_trigger_axis_written_values_witness:
  "written_value (WriteApplicationControllerState_triggers example_env
       (example_gamepad 255 0 0) example_writer_state) 8 = Some (LongValue 32767)
   \<and> written_value (WriteApplicationControllerState_triggers example_env
       (example_gamepad 0 255 0) example_writer_state) 8 = Some (LongValue (- 32768))
   \<and> written_value (WriteApplicationControllerState_triggers example_env
       (example_gamepad 128 128 0) example_writer_state) 8 = Some (LongValue 0)"
proof -
  note t = shared_trigger_axis_written_values [OF example_trigger_axis, THEN conjunct2, rule_format, OF refl]
  have 1: "written_value (WriteApplicationControllerState_triggers example_env
       (example_gamepad 255 0 0) example_writer_state) 8 = Some (LongValue 32767)"
    by (rule t [THEN conjunct1, rule_format]) (simp add: example_gamepad_def)
  have 2: "written_value (WriteApplicationControllerState_triggers example_env
       (example_gamepad 0 255 0) example_writer_state) 8 = Some (LongValue (- 32768))"
    by (rule t [THEN conjunct2, THEN conjunct1, rule_format]) (simp add: example_gamepad_def)
  have 3: "written_value (WriteApplicationControllerState_triggers example_env
       (example_gamepad 128 128 0) example_writer_state) 8 = Some (LongValue 0)"
    by (rule t [THEN conjunct2, THEN conjunct2, rule_format]) (simp add: example_gamepad_def)
  from 1 2 3 show ?thesis by blast
qed

text \<open>
  C3 as stated fails: for \<open>LT = 0, RT = 255\<close> the value written is \<open>-32768\<close>, the minimum of
  the range, not \<open>-32767\<close>.
\<close>

theorem shared_trigger_axis_right_is_minimum:
  "written_value (WriteApplicationControllerState_triggers example_env
       (example_gamepad 0 255 0) example_writer_state) 8 = Some (LongValue (- 32768))
   \<and> LongValue (- 32768) \<noteq> LongValue (- 32767)"
  using shared_trigger_write [OF example_trigger_axis, of "example_gamepad 0 255 0"]
  by (simp add: example_gamepad_def default_axis_properties_eq kTriggerRangeMax_def
      shared_trigger_remap apply_default_properties)

text \<open>
  C4. The block of the sticks of \<^verbatim>\<open>WriteApplicationControllerState\<close>, with the example
  profile and the default properties, the axes X and Y of the left stick bound to the
  offsets 0 and 4. A vertical stick at the raw value 32767 is written as \<open>-32764\<close>, not as
  the minimum \<open>-32768\<close> of the range; at the raw value \<open>-32768\<close> it is written as 32767.
  The horizontal axis, with the same steps but for the inversion, is written as \<open>-32768\<close>
  for \<open>-32768\<close> and as 32767 for 32767. \<^verbatim>\<open>InvertAxisValue\<close> reflects at the centre of the
  range, the sum of the bounds divided by 2 with truncation, which is 0 for the range of a
  stick: 32767 is inverted to \<open>-32767\<close>, where \<open>lo + hi - v\<close> is \<open>-32768\<close>, and \<open>-32768\<close> is
  inverted to 32768, above the maximum 32767 of the range.
\<close>

theorem vertical_stick_up_misses_minimum:
  "written_value (WriteApplicationControllerState_sticks example_env
       (example_sticks 0 32767) example_writer_state) 4 = Some (LongValue (- 32764))
   \<and> written_value (WriteApplicationControllerState_sticks example_env
       (example_sticks 0 (- 32768)) example_writer_state) 4 = Some (LongValue 32767)
   \<and> written_value (WriteApplicationControllerState_sticks example_env
       (example_sticks (- 32768) 0) example_writer_state) 0 = Some (LongValue (- 32768))
   \<and> written_value (WriteApplicationControllerState_sticks example_env
       (example_sticks 32767 0) example_writer_state) 0 = Some (LongValue 32767)
   \<and> sint (InvertAxisValue 32767 kStickRangeMin kStickRangeMax) = - 32767
   \<and> sint (kStickRangeMin + kStickRangeMax - 32767) = - 32768
   \<and> sint (InvertAxisValue (- 32768) kStickRangeMin kStickRangeMax) = 32768
   \<and> sint kStickRangeMax = 32767"
proof -
  have 1: "written_value (WriteApplicationControllerState_sticks example_env
       (example_sticks 0 32767) example_writer_state) 4 = Some (LongValue (- 32764))"
    by code_simp
  have 2: "written_value (WriteApplicationControllerState_sticks example_env
       (example_sticks 0 (- 32768)) example_writer_state) 4 = Some (LongValue 32767)"
    by code_simp
  have 3: "written_value (WriteApplicationControllerState_sticks example_env
       (example_sticks (- 32768) 0) example_writer_state) 0 = Some (LongValue (- 32768))"
    by code_simp
  have 4: "written_value (WriteApplicationControllerState_sticks example_env
       (example_sticks 32767 0) example_writer_state) 0 = Some (LongValue 32767)"
    by code_simp
  have 5: "sint (InvertAxisValue 32767 kStickRangeMin kStickRangeMax) = - 32767"
    "sint (InvertAxisValue (- 32768) kStickRangeMin kStickRangeMax) = 32768"
    by (simp_all add: InvertAxisValue_stick)
  have 6: "sint (kStickRangeMin + kStickRangeMax - 32767) = - 32768" "sint kStickRangeMax = 32767"
    by (simp_all add: kStickRangeMin_def kStickRangeMax_def)
  from 1 2 3 4 5 6 show ?thesis by blast
qed

end
